theory Spec2Isabelle
  imports Main "HOL-Library.Log_Nat" "HOL-Library.Word" "HOL-Library.AList"
begin

unbundle bit_operations_syntax

section \<open>Python values\<close>

subsection \<open>Floats\<close>

text \<open>
  A Python \<^verbatim>\<open>float\<close> is an IEEE 754 binary64 number. The program only ever holds
  finite floats, so a float is modelled by its exact value, a rational number, and every
  float operation is the exact operation followed by rounding to the nearest binary64
  value, ties to the even significand. \<open>ilog2 x\<close> is the binary exponent of a positive
  \<open>x\<close>; the unit in the last place is \<open>2 powi (e - 52)\<close>, with the exponent \<open>e\<close> kept
  at or above \<open>- 1022\<close> for subnormal numbers. Overflow to infinity is not represented:
  the only float the program computes repeatedly is the rotation angle, which is shown
  below never to exceed \<open>2 ^ 52\<close>, and int division, which reports its overflow.
  The two zeros of binary64 have the same value and are not told apart.
\<close>

type_synonym pyfloat = rat

definition round_half_even :: "rat \<Rightarrow> int" where
  "round_half_even q =
     (let f = \<lfloor>q\<rfloor>; d = q - of_int f
      in if d < 1 / 2 then f
         else if 1 / 2 < d then f + 1
         else if even f then f else f + 1)"

definition ilog2 :: "rat \<Rightarrow> int" where
  "ilog2 x =
     (let (a, b) = quotient_of x; k = bitlen a - bitlen b
      in if x < 2 powi k then k - 1 else k)"

definition round64 :: "rat \<Rightarrow> rat" where
  "round64 x =
     (if x = 0 then 0
      else let e = max (ilog2 \<bar>x\<bar>) (- 1022); u = 2 powi (e - 52)
           in of_int (round_half_even (x / u)) * u)"

definition float_add :: "pyfloat \<Rightarrow> pyfloat \<Rightarrow> pyfloat" where
  "float_add x y = round64 (x + y)"

subsection \<open>Exceptions\<close>

text \<open>
  The exceptions the program's own statements can raise: true division of ints,
  \<^verbatim>\<open>Image.open\<close> on a missing or unrecognised file, and handing \<^verbatim>\<open>None\<close> to a
  wrapped C function that expects an unsigned int. A method that raises returns
  \<open>Inl\<close> of the exception together with the state as it was when the exception left
  the method; a method that returns normally gives \<open>Inr\<close> of the new state.
\<close>

datatype error =
    ZeroDivisionError
  | OverflowError
  | FileNotFoundError
  | UnidentifiedImageError
  | ArgumentError

type_synonym 's result = "error \<times> 's + 's"

text \<open>
  \<^verbatim>\<open>a / b\<close> on two ints: the quotient correctly rounded to a float,
  \<^verbatim>\<open>ZeroDivisionError\<close> for a zero divisor, \<^verbatim>\<open>OverflowError\<close> when the rounded
  quotient is beyond the largest float.
\<close>

definition int_truediv :: "int \<Rightarrow> int \<Rightarrow> error + pyfloat" where
  "int_truediv a b =
     (if b = 0 then Inl ZeroDivisionError
      else let q = round64 (of_int a / of_int b)
           in if 2 ^ 1024 \<le> \<bar>q\<bar> then Inl OverflowError else Inr q)"

section \<open>Image files (Pillow)\<close>

text \<open>
  A decoded picture is its size and its rows of RGBA pixels, top row first. The file
  system maps a path to what \<^verbatim>\<open>Image.open\<close> finds there. \<^verbatim>\<open>convert("RGBA")\<close> is the
  identity on this representation.
\<close>

type_synonym pixel = "8 word \<times> 8 word \<times> 8 word \<times> 8 word"

record image =
  img_width :: nat
  img_height :: nat
  img_rows :: "pixel list list"

datatype file_content = Absent | NotAnImage | Picture image

type_synonym filesystem = "string \<Rightarrow> file_content"

definition Image_open :: "filesystem \<Rightarrow> string \<Rightarrow> error + image" where
  "Image_open fs path =
     (case fs path of
        Absent \<Rightarrow> Inl FileNotFoundError
      | NotAnImage \<Rightarrow> Inl UnidentifiedImageError
      | Picture img \<Rightarrow> Inr img)"

definition transpose_FLIP_TOP_BOTTOM :: "image \<Rightarrow> image" where
  "transpose_FLIP_TOP_BOTTOM img = img\<lparr>img_rows := rev (img_rows img)\<rparr>"

definition tobytes :: "image \<Rightarrow> 8 word list" where
  "tobytes img = concat (map (\<lambda>(r, g, b, a). [r, g, b, a]) (concat (img_rows img)))"

section \<open>The OpenGL context\<close>

text \<open>
  The fixed-function context is modelled by the state the program reads or writes:
  the two capabilities it toggles, the viewport, the matrix mode and the projection and
  modelview matrix stacks, texture and quadric objects, the immediate-mode vertex
  assembly, and the primitives rasterised since the colour buffer was last cleared.
  A matrix is kept symbolically, as the sequence of transformations multiplied onto the
  identity, so that two matrices are equal here only if they were built by the same
  calls. Each drawn primitive records the pipeline state it was drawn under.
  Every call is a total function on the context; a \<^verbatim>\<open>glPopMatrix\<close> on a stack with
  nothing saved is ignored, as the context does, and the context's own checks of
  argument values and stack depth limits are outside this model.
\<close>

datatype matrix_mode = GL_PROJECTION | GL_MODELVIEW

datatype capability = GL_DEPTH_TEST | GL_TEXTURE_2D

datatype tex_filter = GL_NEAREST_MIPMAP_LINEAR | GL_LINEAR

datatype tex_param = GL_TEXTURE_MIN_FILTER | GL_TEXTURE_MAG_FILTER

datatype transform =
    Perspective pyfloat pyfloat pyfloat pyfloat
  | Ortho2D pyfloat pyfloat pyfloat pyfloat
  | Translate pyfloat pyfloat pyfloat
  | Rotate pyfloat pyfloat pyfloat pyfloat
  | Scale pyfloat pyfloat pyfloat

type_synonym matrix = "transform list"

record texture_object =
  tex_width :: nat
  tex_height :: nat
  tex_bytes :: "8 word list"
  min_filter :: tex_filter
  mag_filter :: tex_filter

record quadric =
  quadric_texture :: bool

record pipeline =
  pl_depth_test :: bool
  pl_texturing :: bool
  pl_projection :: matrix
  pl_modelview :: matrix
  pl_texture :: nat

text \<open>A vertex is its texture coordinate and its position.\<close>

type_synonym vertex = "(pyfloat \<times> pyfloat) \<times> (pyfloat \<times> pyfloat)"

datatype draw =
    Quad pipeline vertex vertex vertex vertex
  | Sphere pipeline bool pyfloat int int

record gl_context =
  clear_color :: "pyfloat \<times> pyfloat \<times> pyfloat \<times> pyfloat"
  depth_test :: bool
  texture_2d :: bool
  viewport :: "int \<times> int \<times> int \<times> int"
  matrix_mode :: matrix_mode
  projection :: matrix
  projection_saved :: "matrix list"
  modelview :: matrix
  modelview_saved :: "matrix list"
  textures :: "(nat \<times> texture_object) list"
  next_texture :: nat
  bound_texture :: nat
  quadrics :: "(nat \<times> quadric) list"
  next_quadric :: nat
  tex_coord :: "pyfloat \<times> pyfloat"
  assembling :: "vertex list option"
  framebuffer :: "draw list"

text \<open>A context as it is created: nothing enabled, identity matrices, no objects.\<close>

definition fresh_context :: gl_context where
  "fresh_context =
     \<lparr>clear_color = (0, 0, 0, 0), depth_test = False, texture_2d = False,
      viewport = (0, 0, 0, 0), matrix_mode = GL_MODELVIEW,
      projection = [], projection_saved = [], modelview = [], modelview_saved = [],
      textures = [], next_texture = 1, bound_texture = 0,
      quadrics = [], next_quadric = 1,
      tex_coord = (0, 0), assembling = None, framebuffer = []\<rparr>"

definition snapshot :: "gl_context \<Rightarrow> pipeline" where
  "snapshot g =
     \<lparr>pl_depth_test = depth_test g, pl_texturing = texture_2d g,
      pl_projection = projection g, pl_modelview = modelview g,
      pl_texture = bound_texture g\<rparr>"

definition glClearColor :: "pyfloat \<Rightarrow> pyfloat \<Rightarrow> pyfloat \<Rightarrow> pyfloat \<Rightarrow> gl_context \<Rightarrow> gl_context" where
  "glClearColor r gr b a g = g\<lparr>clear_color := (r, gr, b, a)\<rparr>"

fun glEnable :: "capability \<Rightarrow> gl_context \<Rightarrow> gl_context" where
  "glEnable GL_DEPTH_TEST g = g\<lparr>depth_test := True\<rparr>"
| "glEnable GL_TEXTURE_2D g = g\<lparr>texture_2d := True\<rparr>"

fun glDisable :: "capability \<Rightarrow> gl_context \<Rightarrow> gl_context" where
  "glDisable GL_DEPTH_TEST g = g\<lparr>depth_test := False\<rparr>"
| "glDisable GL_TEXTURE_2D g = g\<lparr>texture_2d := False\<rparr>"

definition GL_COLOR_BUFFER_BIT :: int where
  "GL_COLOR_BUFFER_BIT = 16384"

definition GL_DEPTH_BUFFER_BIT :: int where
  "GL_DEPTH_BUFFER_BIT = 256"

text \<open>Clearing the colour buffer erases every primitive drawn before.\<close>

definition glClear :: "int \<Rightarrow> gl_context \<Rightarrow> gl_context" where
  "glClear bits g =
     (if bits AND GL_COLOR_BUFFER_BIT \<noteq> 0 then g\<lparr>framebuffer := []\<rparr> else g)"

definition glViewport :: "int \<Rightarrow> int \<Rightarrow> int \<Rightarrow> int \<Rightarrow> gl_context \<Rightarrow> gl_context" where
  "glViewport x y w h g = g\<lparr>viewport := (x, y, w, h)\<rparr>"

definition glMatrixMode :: "matrix_mode \<Rightarrow> gl_context \<Rightarrow> gl_context" where
  "glMatrixMode m g = g\<lparr>matrix_mode := m\<rparr>"

definition glLoadIdentity :: "gl_context \<Rightarrow> gl_context" where
  "glLoadIdentity g =
     (case matrix_mode g of
        GL_PROJECTION \<Rightarrow> g\<lparr>projection := []\<rparr>
      | GL_MODELVIEW \<Rightarrow> g\<lparr>modelview := []\<rparr>)"

text \<open>Multiplying the current matrix by a transformation.\<close>

definition mult_matrix :: "transform \<Rightarrow> gl_context \<Rightarrow> gl_context" where
  "mult_matrix t g =
     (case matrix_mode g of
        GL_PROJECTION \<Rightarrow> g\<lparr>projection := projection g @ [t]\<rparr>
      | GL_MODELVIEW \<Rightarrow> g\<lparr>modelview := modelview g @ [t]\<rparr>)"

definition glPushMatrix :: "gl_context \<Rightarrow> gl_context" where
  "glPushMatrix g =
     (case matrix_mode g of
        GL_PROJECTION \<Rightarrow> g\<lparr>projection_saved := projection g # projection_saved g\<rparr>
      | GL_MODELVIEW \<Rightarrow> g\<lparr>modelview_saved := modelview g # modelview_saved g\<rparr>)"

definition glPopMatrix :: "gl_context \<Rightarrow> gl_context" where
  "glPopMatrix g =
     (case matrix_mode g of
        GL_PROJECTION \<Rightarrow>
          (case projection_saved g of
             [] \<Rightarrow> g
           | m # ms \<Rightarrow> g\<lparr>projection := m, projection_saved := ms\<rparr>)
      | GL_MODELVIEW \<Rightarrow>
          (case modelview_saved g of
             [] \<Rightarrow> g
           | m # ms \<Rightarrow> g\<lparr>modelview := m, modelview_saved := ms\<rparr>))"

definition gluPerspective :: "pyfloat \<Rightarrow> pyfloat \<Rightarrow> pyfloat \<Rightarrow> pyfloat \<Rightarrow> gl_context \<Rightarrow> gl_context" where
  "gluPerspective fovy aspect zNear zFar = mult_matrix (Perspective fovy aspect zNear zFar)"

definition gluOrtho2D :: "pyfloat \<Rightarrow> pyfloat \<Rightarrow> pyfloat \<Rightarrow> pyfloat \<Rightarrow> gl_context \<Rightarrow> gl_context" where
  "gluOrtho2D x0 x1 y0 y1 = mult_matrix (Ortho2D x0 x1 y0 y1)"

definition glTranslatef :: "pyfloat \<Rightarrow> pyfloat \<Rightarrow> pyfloat \<Rightarrow> gl_context \<Rightarrow> gl_context" where
  "glTranslatef x y z = mult_matrix (Translate x y z)"

definition glRotatef :: "pyfloat \<Rightarrow> pyfloat \<Rightarrow> pyfloat \<Rightarrow> pyfloat \<Rightarrow> gl_context \<Rightarrow> gl_context" where
  "glRotatef a x y z = mult_matrix (Rotate a x y z)"

definition glScalef :: "pyfloat \<Rightarrow> pyfloat \<Rightarrow> pyfloat \<Rightarrow> gl_context \<Rightarrow> gl_context" where
  "glScalef x y z = mult_matrix (Scale x y z)"

subsection \<open>Texture objects\<close>

definition default_texture :: texture_object where
  "default_texture =
     \<lparr>tex_width = 0, tex_height = 0, tex_bytes = [],
      min_filter = GL_NEAREST_MIPMAP_LINEAR, mag_filter = GL_LINEAR\<rparr>"

text \<open>\<^verbatim>\<open>glGenTextures(1)\<close> returns one texture name that was not in use.\<close>

definition glGenTextures :: "gl_context \<Rightarrow> nat \<times> gl_context" where
  "glGenTextures g = (next_texture g, g\<lparr>next_texture := Suc (next_texture g)\<rparr>)"

text \<open>Binding a name for the first time creates its texture object.\<close>

definition glBindTexture :: "nat \<Rightarrow> gl_context \<Rightarrow> gl_context" where
  "glBindTexture name g =
     (case map_of (textures g) name of
        None \<Rightarrow> g\<lparr>bound_texture := name, textures := (name, default_texture) # textures g\<rparr>
      | Some _ \<Rightarrow> g\<lparr>bound_texture := name\<rparr>)"

text \<open>The two calls below change the object bound at the time.\<close>

definition map_bound :: "(texture_object \<Rightarrow> texture_object) \<Rightarrow> gl_context \<Rightarrow> gl_context" where
  "map_bound f g = g\<lparr>textures := AList.map_entry (bound_texture g) f (textures g)\<rparr>"

definition glTexImage2D :: "nat \<Rightarrow> nat \<Rightarrow> 8 word list \<Rightarrow> gl_context \<Rightarrow> gl_context" where
  "glTexImage2D w h bytes =
     map_bound (\<lambda>t. t\<lparr>tex_width := w, tex_height := h, tex_bytes := bytes\<rparr>)"

fun glTexParameterf :: "tex_param \<Rightarrow> tex_filter \<Rightarrow> gl_context \<Rightarrow> gl_context" where
  "glTexParameterf GL_TEXTURE_MIN_FILTER f g = map_bound (\<lambda>t. t\<lparr>min_filter := f\<rparr>) g"
| "glTexParameterf GL_TEXTURE_MAG_FILTER f g = map_bound (\<lambda>t. t\<lparr>mag_filter := f\<rparr>) g"

subsection \<open>Immediate mode\<close>

text \<open>
  Between \<^verbatim>\<open>glBegin(GL_QUADS)\<close> and \<^verbatim>\<open>glEnd()\<close> every \<^verbatim>\<open>glVertex2f\<close> adds a vertex
  carrying the texture coordinate current at that moment; \<^verbatim>\<open>glEnd\<close> draws one
  quadrilateral for each complete group of four vertices.
\<close>

fun group_quads :: "vertex list \<Rightarrow> (vertex \<times> vertex \<times> vertex \<times> vertex) list" where
  "group_quads (a # b # c # d # vs) = (a, b, c, d) # group_quads vs"
| "group_quads _ = []"

definition glBegin_QUADS :: "gl_context \<Rightarrow> gl_context" where
  "glBegin_QUADS g = g\<lparr>assembling := Some []\<rparr>"

definition glTexCoord2f :: "pyfloat \<Rightarrow> pyfloat \<Rightarrow> gl_context \<Rightarrow> gl_context" where
  "glTexCoord2f s t g = g\<lparr>tex_coord := (s, t)\<rparr>"

definition glVertex2f :: "pyfloat \<Rightarrow> pyfloat \<Rightarrow> gl_context \<Rightarrow> gl_context" where
  "glVertex2f x y g =
     (case assembling g of
        None \<Rightarrow> g
      | Some vs \<Rightarrow> g\<lparr>assembling := Some (vs @ [(tex_coord g, (x, y))])\<rparr>)"

definition glEnd :: "gl_context \<Rightarrow> gl_context" where
  "glEnd g =
     (case assembling g of
        None \<Rightarrow> g
      | Some vs \<Rightarrow>
          g\<lparr>assembling := None,
            framebuffer := framebuffer g @
              map (\<lambda>(a, b, c, d). Quad (snapshot g) a b c d) (group_quads vs)\<rparr>)"

subsection \<open>Quadrics\<close>

definition gluNewQuadric :: "gl_context \<Rightarrow> nat \<times> gl_context" where
  "gluNewQuadric g =
     (next_quadric g,
      g\<lparr>quadrics := (next_quadric g, \<lparr>quadric_texture = False\<rparr>) # quadrics g,
        next_quadric := Suc (next_quadric g)\<rparr>)"

definition gluQuadricTexture :: "nat \<Rightarrow> bool \<Rightarrow> gl_context \<Rightarrow> gl_context" where
  "gluQuadricTexture q b g =
     g\<lparr>quadrics := AList.map_entry q (\<lambda>obj. obj\<lparr>quadric_texture := b\<rparr>) (quadrics g)\<rparr>"

definition gluSphere :: "nat \<Rightarrow> pyfloat \<Rightarrow> int \<Rightarrow> int \<Rightarrow> gl_context \<Rightarrow> gl_context" where
  "gluSphere q radius slices stacks g =
     (case map_of (quadrics g) q of
        None \<Rightarrow> g
      | Some obj \<Rightarrow>
          g\<lparr>framebuffer := framebuffer g @
              [Sphere (snapshot g) (quadric_texture obj) radius slices stacks]\<rparr>)"

definition gluDeleteQuadric :: "nat \<Rightarrow> gl_context \<Rightarrow> gl_context" where
  "gluDeleteQuadric q g = g\<lparr>quadrics := AList.delete q (quadrics g)\<rparr>"

section \<open>The widget\<close>

text \<open>
  \<^verbatim>\<open>OpenGLWindow\<close> with the attributes its constructor sets, and with the part of
  the inherited \<^verbatim>\<open>QOpenGLWidget\<close> state that the methods use: the widget's size, which
  \<^verbatim>\<open>self.width()\<close> and \<^verbatim>\<open>self.height()\<close> read (C ints, hence 32-bit words read as
  signed), and whether a repaint requested by \<^verbatim>\<open>self.update()\<close> is pending.
\<close>

record QTimer =
  interval :: int
  isActive :: bool

record OpenGLWindow =
  angle :: pyfloat
  texture :: "nat option"
  texture_image :: string
  bg_texture :: "nat option"
  background_image :: string
  timer :: QTimer
  width :: "32 word"
  height :: "32 word"
  update_pending :: bool

text \<open>
  \<^verbatim>\<open>__init__\<close>: the timer is created, connected to \<^verbatim>\<open>update_frame\<close> and started
  with 16 ms; the connection is the \<open>Timeout\<close> case of \<open>dispatch\<close> below. Until
  the first resize the widget has the size Qt gives a child widget that has not been
  laid out, 100 by 30.
\<close>

definition OpenGLWindow_init :: "string \<Rightarrow> string \<Rightarrow> OpenGLWindow" where
  "OpenGLWindow_init texture_image' background_image' =
     \<lparr>angle = 0, texture = None, texture_image = texture_image',
      bg_texture = None, background_image = background_image',
      timer = \<lparr>interval = 16, isActive = True\<rparr>,
      width = 100, height = 30, update_pending = False\<rparr>"

definition load_texture :: "filesystem \<Rightarrow> string \<Rightarrow> gl_context \<Rightarrow> error \<times> gl_context + nat \<times> gl_context" where
  "load_texture fs image_file g0 =
     (let (texture_id, g1) = glGenTextures g0;
          g2 = glBindTexture texture_id g1
      in case Image_open fs image_file of
           Inl e \<Rightarrow> Inl (e, g2)
         | Inr opened \<Rightarrow>
             let image = transpose_FLIP_TOP_BOTTOM opened;
                 img_data = tobytes image;
                 g3 = glTexImage2D (img_width image) (img_height image) img_data g2;
                 g4 = glTexParameterf GL_TEXTURE_MIN_FILTER GL_LINEAR g3;
                 g5 = glTexParameterf GL_TEXTURE_MAG_FILTER GL_LINEAR g4
             in Inr (texture_id, g5))"

definition initializeGL :: "filesystem \<Rightarrow> OpenGLWindow \<times> gl_context \<Rightarrow> (OpenGLWindow \<times> gl_context) result" where
  "initializeGL fs = (\<lambda>(self, g0).
     let g1 = glClearColor 0 0 0 1 g0;
         g2 = glEnable GL_DEPTH_TEST g1;
         g3 = glEnable GL_TEXTURE_2D g2
     in case load_texture fs (texture_image self) g3 of
          Inl (e, g4) \<Rightarrow> Inl (e, (self, g4))
        | Inr (t, g4) \<Rightarrow>
            let self1 = self\<lparr>texture := Some t\<rparr>
            in if length (background_image self1) > 0
               then (case load_texture fs (background_image self1) g4 of
                       Inl (e, g5) \<Rightarrow> Inl (e, (self1, g5))
                     | Inr (b, g5) \<Rightarrow> Inr (self1\<lparr>bg_texture := Some b\<rparr>, g5))
               else Inr (self1, g4))"

definition resizeGL :: "32 word \<Rightarrow> 32 word \<Rightarrow> gl_context \<Rightarrow> gl_context result" where
  "resizeGL w h g0 =
     (let g1 = glViewport 0 0 (sint w) (sint h) g0;
          g2 = glMatrixMode GL_PROJECTION g1;
          g3 = glLoadIdentity g2
      in case (if sint h \<noteq> 0 then int_truediv (sint w) (sint h) else Inr 1) of
           Inl e \<Rightarrow> Inl (e, g3)
         | Inr aspect \<Rightarrow>
             Inr (glMatrixMode GL_MODELVIEW
                   (gluPerspective 45 aspect (round64 (1 / 10)) 100 g3)))"

text \<open>
  \<^verbatim>\<open>render_background\<close> binds \<^verbatim>\<open>self.bg_texture\<close>; \<^verbatim>\<open>paintGL\<close> calls it only when
  that attribute is not \<^verbatim>\<open>None\<close>. Called with \<^verbatim>\<open>None\<close>, the binding call raises.
\<close>

definition render_background :: "OpenGLWindow \<Rightarrow> gl_context \<Rightarrow> gl_context result" where
  "render_background self g0 =
     (let w = of_int (sint (width self));
          h = of_int (sint (height self));
          g1 = glDisable GL_DEPTH_TEST g0;
          g2 = glMatrixMode GL_PROJECTION g1;
          g3 = glPushMatrix g2;
          g4 = glLoadIdentity g3;
          g5 = gluOrtho2D 0 w 0 h g4;
          g6 = glMatrixMode GL_MODELVIEW g5;
          g7 = glPushMatrix g6;
          g8 = glLoadIdentity g7
      in case bg_texture self of
           None \<Rightarrow> Inl (ArgumentError, g8)
         | Some b \<Rightarrow>
             let g9 = glBindTexture b g8;
                 g10 = glBegin_QUADS g9;
                 g11 = glVertex2f 0 0 (glTexCoord2f 0 0 g10);
                 g12 = glVertex2f w 0 (glTexCoord2f 1 0 g11);
                 g13 = glVertex2f w h (glTexCoord2f 1 1 g12);
                 g14 = glVertex2f 0 h (glTexCoord2f 0 1 g13);
                 g15 = glEnd g14;
                 g16 = glMatrixMode GL_PROJECTION g15;
                 g17 = glPopMatrix g16;
                 g18 = glMatrixMode GL_MODELVIEW g17;
                 g19 = glPopMatrix g18
             in Inr (glEnable GL_DEPTH_TEST g19))"

definition draw_textured_sphere :: "OpenGLWindow \<Rightarrow> pyfloat \<Rightarrow> int \<Rightarrow> int \<Rightarrow> gl_context \<Rightarrow> gl_context result" where
  "draw_textured_sphere self radius slices stacks g0 =
     (case texture self of
        None \<Rightarrow> Inl (ArgumentError, g0)
      | Some t \<Rightarrow>
          let g1 = glBindTexture t g0;
              (quadric, g2) = gluNewQuadric g1;
              g3 = gluQuadricTexture quadric True g2;
              g4 = gluSphere quadric radius slices stacks g3
          in Inr (gluDeleteQuadric quadric g4))"

definition paintGL :: "OpenGLWindow \<Rightarrow> gl_context \<Rightarrow> gl_context result" where
  "paintGL self g0 =
     (let g1 = glClear (GL_COLOR_BUFFER_BIT OR GL_DEPTH_BUFFER_BIT) g0;
          g2 = glLoadIdentity g1
      in case (if bg_texture self \<noteq> None then render_background self g2 else Inr g2) of
           Inl e \<Rightarrow> Inl e
         | Inr g3 \<Rightarrow>
             let g4 = glTranslatef 0 0 (- (9 / 2)) g3;
                 g5 = glRotatef (angle self) 2 (- 1) (- 1) g4;
                 g6 = glScalef 1 1 1 g5
             in draw_textured_sphere self (3 / 2) 32 32 g6)"

definition update_frame :: "OpenGLWindow \<Rightarrow> OpenGLWindow" where
  "update_frame self =
     (let self1 = self\<lparr>angle := float_add (angle self) (1 / 2)\<rparr>
      in self1\<lparr>update_pending := True\<rparr>)"

section \<open>Events delivered by Qt\<close>

text \<open>
  The window toolkit drives the widget: it calls \<^verbatim>\<open>initializeGL\<close> when the
  context is ready, gives the widget its new size and calls \<^verbatim>\<open>resizeGL\<close> with it,
  calls \<^verbatim>\<open>paintGL\<close> for a paint event (which consumes a pending update request), and
  emits the timer's \<^verbatim>\<open>timeout\<close> signal, connected to \<^verbatim>\<open>update_frame\<close>, while the
  timer is active. A run ends at the first exception. A run is any list of events:
  which lists the toolkit's event loop really produces, and when, is not described
  here, so a property shown for a list says what the methods do on it, not that the
  toolkit delivers it.
\<close>

datatype event = InitializeGL | Resize "32 word" "32 word" | Paint | Timeout

type_synonym world = "OpenGLWindow \<times> gl_context"

fun dispatch :: "filesystem \<Rightarrow> event \<Rightarrow> world \<Rightarrow> world result" where
  "dispatch fs InitializeGL (self, g) = initializeGL fs (self, g)"
| "dispatch fs (Resize w h) (self, g) =
     (let self1 = self\<lparr>width := w, height := h\<rparr>
      in case resizeGL w h g of
           Inl (e, g') \<Rightarrow> Inl (e, (self1, g'))
         | Inr g' \<Rightarrow> Inr (self1, g'))"
| "dispatch fs Paint (self, g) =
     (let self1 = self\<lparr>update_pending := False\<rparr>
      in case paintGL self1 g of
           Inl (e, g') \<Rightarrow> Inl (e, (self1, g'))
         | Inr g' \<Rightarrow> Inr (self1, g'))"
| "dispatch fs Timeout (self, g) =
     (if isActive (timer self) then Inr (update_frame self, g) else Inr (self, g))"

fun run :: "filesystem \<Rightarrow> event list \<Rightarrow> world \<Rightarrow> world result" where
  "run fs [] s = Inr s"
| "run fs (e # es) s =
     (case dispatch fs e s of
        Inl err \<Rightarrow> Inl err
      | Inr s' \<Rightarrow> run fs es s')"

definition start :: "string \<Rightarrow> string \<Rightarrow> world" where
  "start texture_image' background_image' =
     (OpenGLWindow_init texture_image' background_image', fresh_context)"


section \<open>Example inputs\<close>

text \<open>
  A file system with two small pictures, used to instantiate the theorems below.
\<close>

definition earth_img :: image where
  "earth_img =
     \<lparr>img_width = 2, img_height = 2,
      img_rows = [[(10, 20, 30, 255), (40, 50, 60, 255)],
                  [(70, 80, 90, 255), (100, 110, 120, 255)]]\<rparr>"

definition stars_img :: image where
  "stars_img =
     \<lparr>img_width = 1, img_height = 2,
      img_rows = [[(0, 0, 0, 255)], [(255, 255, 255, 255)]]\<rparr>"

definition example_fs :: filesystem where
  "example_fs path =
     (if path = ''earth.jpg'' then Picture earth_img
      else if path = ''stars.png'' then Picture stars_img
      else if path = ''notes.txt'' then NotAnImage
      else Absent)"

section \<open>Rounding to binary64\<close>

text \<open>
  The facts about rounding that the program's arithmetic needs: \<open>ilog2\<close> is the binary
  exponent, a value with a significand below \<open>2 ^ 53\<close> is its own rounding, and
  rounding moves a value by at most half a unit in the last place.
\<close>

lemma round_half_even_of_int: "round_half_even (of_int n) = n"
  by (simp add: round_half_even_def)

lemma round_half_even_error: "\<bar>of_int (round_half_even q) - q\<bar> \<le> 1 / 2"
proof -
  have "of_int \<lfloor>q\<rfloor> \<le> q" and "q < of_int \<lfloor>q\<rfloor> + 1"
    by linarith+
  then show ?thesis
    unfolding round_half_even_def Let_def by (auto simp: abs_le_iff)
qed

lemma bitlen_powi_bounds:
  assumes "0 < n"
  shows "2 powi (bitlen n - 1) \<le> (of_int n :: rat)" and "(of_int n :: rat) < 2 powi bitlen n"
proof -
  from assms have b1: "1 \<le> bitlen n"
    using bitlen_eq_zero_iff [of n] bitlen_nonneg [of n] by linarith
  from bitlen_bounds [OF assms]
  have lo: "2 ^ nat (bitlen n - 1) \<le> n" and hi: "n < 2 ^ nat (bitlen n)" by simp_all
  have "(2::rat) powi (bitlen n - 1) = 2 ^ nat (bitlen n - 1)"
    using b1 by (simp add: power_int_nonneg_exp)
  also have "\<dots> = of_int (2 ^ nat (bitlen n - 1))" by simp
  also have "\<dots> \<le> of_int n" using lo by (simp only: of_int_le_iff)
  finally show "2 powi (bitlen n - 1) \<le> (of_int n :: rat)" .
  have "(of_int n :: rat) < of_int (2 ^ nat (bitlen n))" using hi by (simp only: of_int_less_iff)
  also have "\<dots> = 2 ^ nat (bitlen n)" by simp
  also have "\<dots> = 2 powi bitlen n" using b1 by (simp add: power_int_nonneg_exp)
  finally show "(of_int n :: rat) < 2 powi bitlen n" .
qed

lemma ilog2_bounds:
  assumes "0 < x"
  shows "2 powi ilog2 x \<le> x" and "x < 2 powi (ilog2 x + 1)"
proof -
  obtain a b where q: "quotient_of x = (a, b)" by (cases "quotient_of x")
  then have b: "0 < b" and x: "x = of_int a / of_int b"
    by (simp_all add: quotient_of_denom_pos quotient_of_div)
  from assms b x have a: "0 < a" by (simp add: zero_less_divide_iff)
  define k where "k = bitlen a - bitlen b"
  have il: "ilog2 x = (if x < 2 powi k then k - 1 else k)"
    by (simp add: ilog2_def q k_def Let_def)
  note A = bitlen_powi_bounds [OF a] and B = bitlen_powi_bounds [OF b]
  have bpos: "(0::rat) < of_int b" using b by simp
  have lower: "2 powi (k - 1) \<le> x"
  proof -
    have "2 powi (k - 1) * (of_int b :: rat) \<le> 2 powi (k - 1) * 2 powi bitlen b"
      using B(2) by (intro mult_left_mono) auto
    also have "\<dots> = 2 powi (bitlen a - 1)"
      by (simp add: k_def power_int_add [symmetric])
    also have "\<dots> \<le> of_int a" by (rule A(1))
    finally show ?thesis using bpos by (simp add: x pos_le_divide_eq)
  qed
  have upper: "x < 2 powi (k + 1)"
  proof -
    have "(of_int a :: rat) < 2 powi bitlen a" by (rule A(2))
    also have "\<dots> = 2 powi (k + 1) * 2 powi (bitlen b - 1)"
      by (simp add: k_def power_int_add [symmetric])
    also have "\<dots> \<le> 2 powi (k + 1) * of_int b"
      using B(1) by (intro mult_left_mono) auto
    finally show ?thesis using bpos by (simp add: x pos_divide_less_eq)
  qed
  show "2 powi ilog2 x \<le> x" using lower by (simp add: il)
  show "x < 2 powi (ilog2 x + 1)" using upper by (simp add: il)
qed

lemma powi2_less_imp: "(2::rat) powi m < 2 powi n \<Longrightarrow> m < n"
  using power_int_increasing [of n m "2::rat"] by (cases "m < n") auto

lemma ilog2_unique:
  assumes "2 powi k \<le> x" and "x < 2 powi (k + 1)"
  shows "ilog2 x = k"
proof -
  have pos: "0 < x" using assms(1) by (rule less_le_trans [rotated]) simp
  from ilog2_bounds [OF pos] assms
  have "(2::rat) powi ilog2 x < 2 powi (k + 1)" and "(2::rat) powi k < 2 powi (ilog2 x + 1)"
    by linarith+
  from this [THEN powi2_less_imp] show ?thesis by simp
qed

lemma round64_exact:
  assumes "\<bar>m\<bar> < 2 ^ 53" and "- 1074 \<le> j"
  shows "round64 (of_int m * 2 powi j) = of_int m * 2 powi j"
proof (cases "m = 0")
  case True
  then show ?thesis by (simp add: round64_def)
next
  case False
  define x :: rat where "x = of_int m * 2 powi j"
  have x0: "x \<noteq> 0" using False by (simp add: x_def)
  have absx: "\<bar>x\<bar> = of_int \<bar>m\<bar> * 2 powi j"
    by (simp add: x_def abs_mult power_int_abs)
  have "(of_int \<bar>m\<bar> :: rat) < of_int (2 ^ 53)"
    using assms(1) by (simp only: of_int_less_iff)
  then have "\<bar>x\<bar> < 2 powi 53 * 2 powi j"
    unfolding absx by (intro mult_strict_right_mono) auto
  then have lt: "\<bar>x\<bar> < 2 powi (53 + j)"
    by (simp add: power_int_add)
  have "2 powi ilog2 \<bar>x\<bar> \<le> \<bar>x\<bar>"
    using x0 by (intro ilog2_bounds) simp
  with lt have "(2::rat) powi ilog2 \<bar>x\<bar> < 2 powi (53 + j)" by linarith
  then have il: "ilog2 \<bar>x\<bar> < 53 + j" by (rule powi2_less_imp)
  define e where "e = max (ilog2 \<bar>x\<bar>) (- 1022)"
  define d where "d = nat (j - (e - 52))"
  have ej: "e - 52 \<le> j" using il assms(2) by (simp add: e_def)
  then have jd: "j = (e - 52) + int d" by (simp add: d_def)
  have q: "x / 2 powi (e - 52) = of_int (m * 2 ^ d)"
    by (simp add: x_def jd power_int_add)
  have "round64 x = of_int (round_half_even (x / 2 powi (e - 52))) * 2 powi (e - 52)"
    using x0 by (simp add: round64_def e_def Let_def)
  also have "\<dots> = of_int (m * 2 ^ d) * 2 powi (e - 52)"
    by (simp only: q round_half_even_of_int)
  also have "\<dots> = x"
    by (simp add: x_def jd power_int_add)
  finally show ?thesis by (simp add: x_def)
qed

lemma round64_error:
  assumes "x \<noteq> 0"
  shows "\<bar>round64 x - x\<bar> \<le> max \<bar>x\<bar> 1 / 2"
proof -
  define e where "e = max (ilog2 \<bar>x\<bar>) (- 1022)"
  define u :: rat where "u = 2 powi (e - 52)"
  have u0: "0 < u" by (simp add: u_def)
  have r: "round64 x = of_int (round_half_even (x / u)) * u"
    using assms by (simp add: round64_def e_def u_def Let_def)
  have "\<bar>round64 x - x\<bar> = \<bar>of_int (round_half_even (x / u)) - x / u\<bar> * u"
    using u0 by (simp add: r abs_mult [symmetric] left_diff_distrib abs_mult_pos)
  also have "\<dots> \<le> 1 / 2 * u"
    using u0 round_half_even_error [of "x / u"] by (intro mult_right_mono) auto
  finally have err: "\<bar>round64 x - x\<bar> \<le> u / 2" by simp
  have "u \<le> max \<bar>x\<bar> 1"
  proof (cases "ilog2 \<bar>x\<bar> \<le> - 1022")
    case True
    then have "e - 52 \<le> 0" by (simp add: e_def)
    then have "u \<le> 2 powi 0"
      unfolding u_def by (intro power_int_increasing) auto
    then show ?thesis by simp
  next
    case False
    then have "e = ilog2 \<bar>x\<bar>" by (simp add: e_def)
    then have "u \<le> 2 powi ilog2 \<bar>x\<bar>"
      unfolding u_def by (intro power_int_increasing) auto
    also have "\<dots> \<le> \<bar>x\<bar>" using assms by (intro ilog2_bounds) simp
    finally show ?thesis by simp
  qed
  with err show ?thesis by linarith
qed


lemma round64_rel_error:
  assumes "2 powi (- 1022) \<le> \<bar>x\<bar>"
  shows "\<bar>round64 x - x\<bar> \<le> \<bar>x\<bar> / 2 ^ 53"
proof -
  have pos: "0 < \<bar>x\<bar>"
    using assms by (rule less_le_trans [rotated]) (simp del: power_int_numeral_neg_numeral)
  then have x0: "x \<noteq> 0" by simp
  from ilog2_bounds [OF pos] assms
  have "(2::rat) powi (- 1022) < 2 powi (ilog2 \<bar>x\<bar> + 1)" by linarith
  then have "- 1022 < ilog2 \<bar>x\<bar> + 1" by (rule powi2_less_imp)
  then have e: "max (ilog2 \<bar>x\<bar>) (- 1022) = ilog2 \<bar>x\<bar>" by simp
  define u :: rat where "u = 2 powi (ilog2 \<bar>x\<bar> - 52)"
  have u0: "0 < u" by (simp add: u_def)
  have r: "round64 x = of_int (round_half_even (x / u)) * u"
    using x0 by (simp add: round64_def e u_def Let_def)
  have "\<bar>round64 x - x\<bar> = \<bar>of_int (round_half_even (x / u)) - x / u\<bar> * u"
    using u0 by (simp add: r abs_mult [symmetric] left_diff_distrib abs_mult_pos)
  also have "\<dots> \<le> 1 / 2 * u"
    using u0 round_half_even_error [of "x / u"] by (intro mult_right_mono) auto
  finally have err: "\<bar>round64 x - x\<bar> \<le> u / 2" by simp
  have "u = 2 powi ilog2 \<bar>x\<bar> / 2 ^ 52"
    by (simp add: u_def power_int_diff)
  also have "\<dots> \<le> \<bar>x\<bar> / 2 ^ 52"
    using ilog2_bounds(1) [OF pos] by (simp add: divide_right_mono)
  finally have "u / 2 \<le> \<bar>x\<bar> / 2 ^ 53" by simp
  with err show ?thesis by linarith
qed

lemma float_add_half:
  assumes "int k < 2 ^ 53"
  shows "float_add (of_nat k / 2) (1 / 2) = of_nat (Suc k) / 2"
proof -
  have sum: "(of_nat k :: rat) / 2 + 1 / 2 = of_nat (Suc k) / 2"
    by (simp add: field_simps)
  have "round64 (of_nat (Suc k) / 2) = of_nat (Suc k) / 2"
  proof (cases "int (Suc k) < 2 ^ 53")
    case True
    have v: "(of_nat (Suc k) :: rat) / 2 = of_int (int (Suc k)) * 2 powi (- 1)"
      by simp
    show ?thesis
      unfolding v using True by (intro round64_exact) auto
  next
    case False
    with assms have "int (Suc k) = 2 ^ 53" by simp
    then have "(of_int (int (Suc k)) :: rat) = of_int (2 ^ 53)" by (simp only:)
    then have v: "(of_nat (Suc k) :: rat) / 2 = of_int 1 * 2 powi 52" by simp
    show ?thesis
      unfolding v by (intro round64_exact) auto
  qed
  then show ?thesis by (simp only: float_add_def sum)
qed

lemma float_add_stuck: "float_add (2 ^ 52) (1 / 2) = 2 ^ 52"
  by code_simp

lemma int_truediv_sint:
  fixes w h :: "32 word"
  assumes "sint h \<noteq> 0"
  shows "int_truediv (sint w) (sint h) = Inr (round64 (of_int (sint w) / of_int (sint h)))"
proof -
  define x :: rat where "x = of_int (sint w) / of_int (sint h)"
  have "\<bar>sint w\<bar> \<le> 2 ^ 31"
    using sint_ge [of w] sint_lt [of w] by simp
  then have num: "\<bar>of_int (sint w) :: rat\<bar> \<le> 2 ^ 31"
    by (metis of_int_abs of_int_le_iff of_int_numeral of_int_power)
  from assms have "1 \<le> \<bar>sint h\<bar>" by simp
  then have den: "1 \<le> \<bar>of_int (sint h) :: rat\<bar>"
    by (metis of_int_abs of_int_1_le_iff)
  have "\<bar>x\<bar> = \<bar>of_int (sint w)\<bar> / \<bar>of_int (sint h)\<bar>"
    by (simp add: x_def)
  also have "\<dots> \<le> \<bar>of_int (sint w)\<bar> / 1"
    using den by (intro divide_left_mono) auto
  finally have xb: "\<bar>x\<bar> \<le> 2 ^ 31" using num by simp
  have "\<bar>round64 x\<bar> \<le> 2 ^ 32"
  proof (cases "x = 0")
    case True
    then show ?thesis by (simp add: round64_def)
  next
    case False
    from xb have "max \<bar>x\<bar> 1 \<le> 2 ^ 31" by simp
    with round64_error [OF False] have "\<bar>round64 x - x\<bar> \<le> 2 ^ 31" by linarith
    with xb show ?thesis by simp
  qed
  also have "(2::rat) ^ 32 < 2 ^ 1024"
    by (rule power_strict_increasing) simp_all
  finally have "\<not> 2 ^ 1024 \<le> \<bar>round64 x\<bar>" by simp
  then show ?thesis
    using assms by (simp add: int_truediv_def x_def Let_def del: power_numeral)
qed

section \<open>Effect of each OpenGL call on each part of the context\<close>

text \<open>
  One group of equations for each call, one equation for each field of the context.
  With them a sequence of calls is evaluated field by field.
\<close>

lemma glClearColor_fields:
  "clear_color (glClearColor r gr b a g) = (r, gr, b, a)"
  "depth_test (glClearColor r gr b a g) = depth_test g"
  "texture_2d (glClearColor r gr b a g) = texture_2d g"
  "viewport (glClearColor r gr b a g) = viewport g"
  "matrix_mode (glClearColor r gr b a g) = matrix_mode g"
  "projection (glClearColor r gr b a g) = projection g"
  "projection_saved (glClearColor r gr b a g) = projection_saved g"
  "modelview (glClearColor r gr b a g) = modelview g"
  "modelview_saved (glClearColor r gr b a g) = modelview_saved g"
  "textures (glClearColor r gr b a g) = textures g"
  "next_texture (glClearColor r gr b a g) = next_texture g"
  "bound_texture (glClearColor r gr b a g) = bound_texture g"
  "quadrics (glClearColor r gr b a g) = quadrics g"
  "next_quadric (glClearColor r gr b a g) = next_quadric g"
  "tex_coord (glClearColor r gr b a g) = tex_coord g"
  "assembling (glClearColor r gr b a g) = assembling g"
  "framebuffer (glClearColor r gr b a g) = framebuffer g"
  by (simp_all add: glClearColor_def)

lemma glEnable_fields:
  "clear_color (glEnable c g) = clear_color g"
  "depth_test (glEnable c g) = (c = GL_DEPTH_TEST \<or> depth_test g)"
  "texture_2d (glEnable c g) = (c = GL_TEXTURE_2D \<or> texture_2d g)"
  "viewport (glEnable c g) = viewport g"
  "matrix_mode (glEnable c g) = matrix_mode g"
  "projection (glEnable c g) = projection g"
  "projection_saved (glEnable c g) = projection_saved g"
  "modelview (glEnable c g) = modelview g"
  "modelview_saved (glEnable c g) = modelview_saved g"
  "textures (glEnable c g) = textures g"
  "next_texture (glEnable c g) = next_texture g"
  "bound_texture (glEnable c g) = bound_texture g"
  "quadrics (glEnable c g) = quadrics g"
  "next_quadric (glEnable c g) = next_quadric g"
  "tex_coord (glEnable c g) = tex_coord g"
  "assembling (glEnable c g) = assembling g"
  "framebuffer (glEnable c g) = framebuffer g"
  by (cases c; simp)+

lemma glDisable_fields:
  "clear_color (glDisable c g) = clear_color g"
  "depth_test (glDisable c g) = (c \<noteq> GL_DEPTH_TEST \<and> depth_test g)"
  "texture_2d (glDisable c g) = (c \<noteq> GL_TEXTURE_2D \<and> texture_2d g)"
  "viewport (glDisable c g) = viewport g"
  "matrix_mode (glDisable c g) = matrix_mode g"
  "projection (glDisable c g) = projection g"
  "projection_saved (glDisable c g) = projection_saved g"
  "modelview (glDisable c g) = modelview g"
  "modelview_saved (glDisable c g) = modelview_saved g"
  "textures (glDisable c g) = textures g"
  "next_texture (glDisable c g) = next_texture g"
  "bound_texture (glDisable c g) = bound_texture g"
  "quadrics (glDisable c g) = quadrics g"
  "next_quadric (glDisable c g) = next_quadric g"
  "tex_coord (glDisable c g) = tex_coord g"
  "assembling (glDisable c g) = assembling g"
  "framebuffer (glDisable c g) = framebuffer g"
  by (cases c; simp)+

lemma glClear_fields:
  "clear_color (glClear bits g) = clear_color g"
  "depth_test (glClear bits g) = depth_test g"
  "texture_2d (glClear bits g) = texture_2d g"
  "viewport (glClear bits g) = viewport g"
  "matrix_mode (glClear bits g) = matrix_mode g"
  "projection (glClear bits g) = projection g"
  "projection_saved (glClear bits g) = projection_saved g"
  "modelview (glClear bits g) = modelview g"
  "modelview_saved (glClear bits g) = modelview_saved g"
  "textures (glClear bits g) = textures g"
  "next_texture (glClear bits g) = next_texture g"
  "bound_texture (glClear bits g) = bound_texture g"
  "quadrics (glClear bits g) = quadrics g"
  "next_quadric (glClear bits g) = next_quadric g"
  "tex_coord (glClear bits g) = tex_coord g"
  "assembling (glClear bits g) = assembling g"
  "framebuffer (glClear bits g) = (if bits AND GL_COLOR_BUFFER_BIT \<noteq> 0 then [] else framebuffer g)"
  by (simp_all add: glClear_def)

lemma glViewport_fields:
  "clear_color (glViewport x y w h g) = clear_color g"
  "depth_test (glViewport x y w h g) = depth_test g"
  "texture_2d (glViewport x y w h g) = texture_2d g"
  "viewport (glViewport x y w h g) = (x, y, w, h)"
  "matrix_mode (glViewport x y w h g) = matrix_mode g"
  "projection (glViewport x y w h g) = projection g"
  "projection_saved (glViewport x y w h g) = projection_saved g"
  "modelview (glViewport x y w h g) = modelview g"
  "modelview_saved (glViewport x y w h g) = modelview_saved g"
  "textures (glViewport x y w h g) = textures g"
  "next_texture (glViewport x y w h g) = next_texture g"
  "bound_texture (glViewport x y w h g) = bound_texture g"
  "quadrics (glViewport x y w h g) = quadrics g"
  "next_quadric (glViewport x y w h g) = next_quadric g"
  "tex_coord (glViewport x y w h g) = tex_coord g"
  "assembling (glViewport x y w h g) = assembling g"
  "framebuffer (glViewport x y w h g) = framebuffer g"
  by (simp_all add: glViewport_def)

lemma glMatrixMode_fields:
  "clear_color (glMatrixMode m g) = clear_color g"
  "depth_test (glMatrixMode m g) = depth_test g"
  "texture_2d (glMatrixMode m g) = texture_2d g"
  "viewport (glMatrixMode m g) = viewport g"
  "matrix_mode (glMatrixMode m g) = m"
  "projection (glMatrixMode m g) = projection g"
  "projection_saved (glMatrixMode m g) = projection_saved g"
  "modelview (glMatrixMode m g) = modelview g"
  "modelview_saved (glMatrixMode m g) = modelview_saved g"
  "textures (glMatrixMode m g) = textures g"
  "next_texture (glMatrixMode m g) = next_texture g"
  "bound_texture (glMatrixMode m g) = bound_texture g"
  "quadrics (glMatrixMode m g) = quadrics g"
  "next_quadric (glMatrixMode m g) = next_quadric g"
  "tex_coord (glMatrixMode m g) = tex_coord g"
  "assembling (glMatrixMode m g) = assembling g"
  "framebuffer (glMatrixMode m g) = framebuffer g"
  by (simp_all add: glMatrixMode_def)

lemma glLoadIdentity_fields:
  "clear_color (glLoadIdentity g) = clear_color g"
  "depth_test (glLoadIdentity g) = depth_test g"
  "texture_2d (glLoadIdentity g) = texture_2d g"
  "viewport (glLoadIdentity g) = viewport g"
  "matrix_mode (glLoadIdentity g) = matrix_mode g"
  "projection (glLoadIdentity g) = (if matrix_mode g = GL_PROJECTION then [] else projection g)"
  "projection_saved (glLoadIdentity g) = projection_saved g"
  "modelview (glLoadIdentity g) = (if matrix_mode g = GL_MODELVIEW then [] else modelview g)"
  "modelview_saved (glLoadIdentity g) = modelview_saved g"
  "textures (glLoadIdentity g) = textures g"
  "next_texture (glLoadIdentity g) = next_texture g"
  "bound_texture (glLoadIdentity g) = bound_texture g"
  "quadrics (glLoadIdentity g) = quadrics g"
  "next_quadric (glLoadIdentity g) = next_quadric g"
  "tex_coord (glLoadIdentity g) = tex_coord g"
  "assembling (glLoadIdentity g) = assembling g"
  "framebuffer (glLoadIdentity g) = framebuffer g"
  by (cases "matrix_mode g"; simp add: glLoadIdentity_def)+

lemma mult_matrix_fields:
  "clear_color (mult_matrix t g) = clear_color g"
  "depth_test (mult_matrix t g) = depth_test g"
  "texture_2d (mult_matrix t g) = texture_2d g"
  "viewport (mult_matrix t g) = viewport g"
  "matrix_mode (mult_matrix t g) = matrix_mode g"
  "projection (mult_matrix t g) = (if matrix_mode g = GL_PROJECTION then projection g @ [t] else projection g)"
  "projection_saved (mult_matrix t g) = projection_saved g"
  "modelview (mult_matrix t g) = (if matrix_mode g = GL_MODELVIEW then modelview g @ [t] else modelview g)"
  "modelview_saved (mult_matrix t g) = modelview_saved g"
  "textures (mult_matrix t g) = textures g"
  "next_texture (mult_matrix t g) = next_texture g"
  "bound_texture (mult_matrix t g) = bound_texture g"
  "quadrics (mult_matrix t g) = quadrics g"
  "next_quadric (mult_matrix t g) = next_quadric g"
  "tex_coord (mult_matrix t g) = tex_coord g"
  "assembling (mult_matrix t g) = assembling g"
  "framebuffer (mult_matrix t g) = framebuffer g"
  by (cases "matrix_mode g"; simp add: mult_matrix_def)+

lemma glPushMatrix_fields:
  "clear_color (glPushMatrix g) = clear_color g"
  "depth_test (glPushMatrix g) = depth_test g"
  "texture_2d (glPushMatrix g) = texture_2d g"
  "viewport (glPushMatrix g) = viewport g"
  "matrix_mode (glPushMatrix g) = matrix_mode g"
  "projection (glPushMatrix g) = projection g"
  "projection_saved (glPushMatrix g) = (if matrix_mode g = GL_PROJECTION then projection g # projection_saved g else projection_saved g)"
  "modelview (glPushMatrix g) = modelview g"
  "modelview_saved (glPushMatrix g) = (if matrix_mode g = GL_MODELVIEW then modelview g # modelview_saved g else modelview_saved g)"
  "textures (glPushMatrix g) = textures g"
  "next_texture (glPushMatrix g) = next_texture g"
  "bound_texture (glPushMatrix g) = bound_texture g"
  "quadrics (glPushMatrix g) = quadrics g"
  "next_quadric (glPushMatrix g) = next_quadric g"
  "tex_coord (glPushMatrix g) = tex_coord g"
  "assembling (glPushMatrix g) = assembling g"
  "framebuffer (glPushMatrix g) = framebuffer g"
  by (cases "matrix_mode g"; simp add: glPushMatrix_def)+

lemma glPopMatrix_fields:
  "clear_color (glPopMatrix g) = clear_color g"
  "depth_test (glPopMatrix g) = depth_test g"
  "texture_2d (glPopMatrix g) = texture_2d g"
  "viewport (glPopMatrix g) = viewport g"
  "matrix_mode (glPopMatrix g) = matrix_mode g"
  "projection (glPopMatrix g) = (if matrix_mode g = GL_PROJECTION then (case projection_saved g of [] \<Rightarrow> projection g | m # ms \<Rightarrow> m) else projection g)"
  "projection_saved (glPopMatrix g) = (if matrix_mode g = GL_PROJECTION then tl (projection_saved g) else projection_saved g)"
  "modelview (glPopMatrix g) = (if matrix_mode g = GL_MODELVIEW then (case modelview_saved g of [] \<Rightarrow> modelview g | m # ms \<Rightarrow> m) else modelview g)"
  "modelview_saved (glPopMatrix g) = (if matrix_mode g = GL_MODELVIEW then tl (modelview_saved g) else modelview_saved g)"
  "textures (glPopMatrix g) = textures g"
  "next_texture (glPopMatrix g) = next_texture g"
  "bound_texture (glPopMatrix g) = bound_texture g"
  "quadrics (glPopMatrix g) = quadrics g"
  "next_quadric (glPopMatrix g) = next_quadric g"
  "tex_coord (glPopMatrix g) = tex_coord g"
  "assembling (glPopMatrix g) = assembling g"
  "framebuffer (glPopMatrix g) = framebuffer g"
  by (cases "matrix_mode g"; simp add: glPopMatrix_def split: list.split)+

lemma glGenTextures_fields:
  "clear_color (snd (glGenTextures g)) = clear_color g"
  "depth_test (snd (glGenTextures g)) = depth_test g"
  "texture_2d (snd (glGenTextures g)) = texture_2d g"
  "viewport (snd (glGenTextures g)) = viewport g"
  "matrix_mode (snd (glGenTextures g)) = matrix_mode g"
  "projection (snd (glGenTextures g)) = projection g"
  "projection_saved (snd (glGenTextures g)) = projection_saved g"
  "modelview (snd (glGenTextures g)) = modelview g"
  "modelview_saved (snd (glGenTextures g)) = modelview_saved g"
  "textures (snd (glGenTextures g)) = textures g"
  "next_texture (snd (glGenTextures g)) = Suc (next_texture g)"
  "bound_texture (snd (glGenTextures g)) = bound_texture g"
  "quadrics (snd (glGenTextures g)) = quadrics g"
  "next_quadric (snd (glGenTextures g)) = next_quadric g"
  "tex_coord (snd (glGenTextures g)) = tex_coord g"
  "assembling (snd (glGenTextures g)) = assembling g"
  "framebuffer (snd (glGenTextures g)) = framebuffer g"
  by (simp_all add: glGenTextures_def)

lemma glBindTexture_fields:
  "clear_color (glBindTexture name g) = clear_color g"
  "depth_test (glBindTexture name g) = depth_test g"
  "texture_2d (glBindTexture name g) = texture_2d g"
  "viewport (glBindTexture name g) = viewport g"
  "matrix_mode (glBindTexture name g) = matrix_mode g"
  "projection (glBindTexture name g) = projection g"
  "projection_saved (glBindTexture name g) = projection_saved g"
  "modelview (glBindTexture name g) = modelview g"
  "modelview_saved (glBindTexture name g) = modelview_saved g"
  "textures (glBindTexture name g) = (case map_of (textures g) name of None \<Rightarrow> (name, default_texture) # textures g | Some _ \<Rightarrow> textures g)"
  "next_texture (glBindTexture name g) = next_texture g"
  "bound_texture (glBindTexture name g) = name"
  "quadrics (glBindTexture name g) = quadrics g"
  "next_quadric (glBindTexture name g) = next_quadric g"
  "tex_coord (glBindTexture name g) = tex_coord g"
  "assembling (glBindTexture name g) = assembling g"
  "framebuffer (glBindTexture name g) = framebuffer g"
  by (simp_all add: glBindTexture_def split: option.split)

lemma map_bound_fields:
  "clear_color (map_bound f g) = clear_color g"
  "depth_test (map_bound f g) = depth_test g"
  "texture_2d (map_bound f g) = texture_2d g"
  "viewport (map_bound f g) = viewport g"
  "matrix_mode (map_bound f g) = matrix_mode g"
  "projection (map_bound f g) = projection g"
  "projection_saved (map_bound f g) = projection_saved g"
  "modelview (map_bound f g) = modelview g"
  "modelview_saved (map_bound f g) = modelview_saved g"
  "textures (map_bound f g) = AList.map_entry (bound_texture g) f (textures g)"
  "next_texture (map_bound f g) = next_texture g"
  "bound_texture (map_bound f g) = bound_texture g"
  "quadrics (map_bound f g) = quadrics g"
  "next_quadric (map_bound f g) = next_quadric g"
  "tex_coord (map_bound f g) = tex_coord g"
  "assembling (map_bound f g) = assembling g"
  "framebuffer (map_bound f g) = framebuffer g"
  by (simp_all add: map_bound_def)

lemma glBegin_QUADS_fields:
  "clear_color (glBegin_QUADS g) = clear_color g"
  "depth_test (glBegin_QUADS g) = depth_test g"
  "texture_2d (glBegin_QUADS g) = texture_2d g"
  "viewport (glBegin_QUADS g) = viewport g"
  "matrix_mode (glBegin_QUADS g) = matrix_mode g"
  "projection (glBegin_QUADS g) = projection g"
  "projection_saved (glBegin_QUADS g) = projection_saved g"
  "modelview (glBegin_QUADS g) = modelview g"
  "modelview_saved (glBegin_QUADS g) = modelview_saved g"
  "textures (glBegin_QUADS g) = textures g"
  "next_texture (glBegin_QUADS g) = next_texture g"
  "bound_texture (glBegin_QUADS g) = bound_texture g"
  "quadrics (glBegin_QUADS g) = quadrics g"
  "next_quadric (glBegin_QUADS g) = next_quadric g"
  "tex_coord (glBegin_QUADS g) = tex_coord g"
  "assembling (glBegin_QUADS g) = Some []"
  "framebuffer (glBegin_QUADS g) = framebuffer g"
  by (simp_all add: glBegin_QUADS_def)

lemma glTexCoord2f_fields:
  "clear_color (glTexCoord2f s t g) = clear_color g"
  "depth_test (glTexCoord2f s t g) = depth_test g"
  "texture_2d (glTexCoord2f s t g) = texture_2d g"
  "viewport (glTexCoord2f s t g) = viewport g"
  "matrix_mode (glTexCoord2f s t g) = matrix_mode g"
  "projection (glTexCoord2f s t g) = projection g"
  "projection_saved (glTexCoord2f s t g) = projection_saved g"
  "modelview (glTexCoord2f s t g) = modelview g"
  "modelview_saved (glTexCoord2f s t g) = modelview_saved g"
  "textures (glTexCoord2f s t g) = textures g"
  "next_texture (glTexCoord2f s t g) = next_texture g"
  "bound_texture (glTexCoord2f s t g) = bound_texture g"
  "quadrics (glTexCoord2f s t g) = quadrics g"
  "next_quadric (glTexCoord2f s t g) = next_quadric g"
  "tex_coord (glTexCoord2f s t g) = (s, t)"
  "assembling (glTexCoord2f s t g) = assembling g"
  "framebuffer (glTexCoord2f s t g) = framebuffer g"
  by (simp_all add: glTexCoord2f_def)

lemma glVertex2f_fields:
  "clear_color (glVertex2f x y g) = clear_color g"
  "depth_test (glVertex2f x y g) = depth_test g"
  "texture_2d (glVertex2f x y g) = texture_2d g"
  "viewport (glVertex2f x y g) = viewport g"
  "matrix_mode (glVertex2f x y g) = matrix_mode g"
  "projection (glVertex2f x y g) = projection g"
  "projection_saved (glVertex2f x y g) = projection_saved g"
  "modelview (glVertex2f x y g) = modelview g"
  "modelview_saved (glVertex2f x y g) = modelview_saved g"
  "textures (glVertex2f x y g) = textures g"
  "next_texture (glVertex2f x y g) = next_texture g"
  "bound_texture (glVertex2f x y g) = bound_texture g"
  "quadrics (glVertex2f x y g) = quadrics g"
  "next_quadric (glVertex2f x y g) = next_quadric g"
  "tex_coord (glVertex2f x y g) = tex_coord g"
  "assembling (glVertex2f x y g) = (case assembling g of None \<Rightarrow> None | Some vs \<Rightarrow> Some (vs @ [(tex_coord g, (x, y))]))"
  "framebuffer (glVertex2f x y g) = framebuffer g"
  by (simp_all add: glVertex2f_def split: option.split)

lemma glEnd_fields:
  "clear_color (glEnd g) = clear_color g"
  "depth_test (glEnd g) = depth_test g"
  "texture_2d (glEnd g) = texture_2d g"
  "viewport (glEnd g) = viewport g"
  "matrix_mode (glEnd g) = matrix_mode g"
  "projection (glEnd g) = projection g"
  "projection_saved (glEnd g) = projection_saved g"
  "modelview (glEnd g) = modelview g"
  "modelview_saved (glEnd g) = modelview_saved g"
  "textures (glEnd g) = textures g"
  "next_texture (glEnd g) = next_texture g"
  "bound_texture (glEnd g) = bound_texture g"
  "quadrics (glEnd g) = quadrics g"
  "next_quadric (glEnd g) = next_quadric g"
  "tex_coord (glEnd g) = tex_coord g"
  "assembling (glEnd g) = None"
  "framebuffer (glEnd g) = (case assembling g of None \<Rightarrow> framebuffer g | Some vs \<Rightarrow> framebuffer g @ map (\<lambda>(a, b, c, d). Quad (snapshot g) a b c d) (group_quads vs))"
  by (simp_all add: glEnd_def split: option.split)

lemma gluNewQuadric_fields:
  "clear_color (snd (gluNewQuadric g)) = clear_color g"
  "depth_test (snd (gluNewQuadric g)) = depth_test g"
  "texture_2d (snd (gluNewQuadric g)) = texture_2d g"
  "viewport (snd (gluNewQuadric g)) = viewport g"
  "matrix_mode (snd (gluNewQuadric g)) = matrix_mode g"
  "projection (snd (gluNewQuadric g)) = projection g"
  "projection_saved (snd (gluNewQuadric g)) = projection_saved g"
  "modelview (snd (gluNewQuadric g)) = modelview g"
  "modelview_saved (snd (gluNewQuadric g)) = modelview_saved g"
  "textures (snd (gluNewQuadric g)) = textures g"
  "next_texture (snd (gluNewQuadric g)) = next_texture g"
  "bound_texture (snd (gluNewQuadric g)) = bound_texture g"
  "quadrics (snd (gluNewQuadric g)) = (next_quadric g, \<lparr>quadric_texture = False\<rparr>) # quadrics g"
  "next_quadric (snd (gluNewQuadric g)) = Suc (next_quadric g)"
  "tex_coord (snd (gluNewQuadric g)) = tex_coord g"
  "assembling (snd (gluNewQuadric g)) = assembling g"
  "framebuffer (snd (gluNewQuadric g)) = framebuffer g"
  by (simp_all add: gluNewQuadric_def)

lemma gluQuadricTexture_fields:
  "clear_color (gluQuadricTexture q b g) = clear_color g"
  "depth_test (gluQuadricTexture q b g) = depth_test g"
  "texture_2d (gluQuadricTexture q b g) = texture_2d g"
  "viewport (gluQuadricTexture q b g) = viewport g"
  "matrix_mode (gluQuadricTexture q b g) = matrix_mode g"
  "projection (gluQuadricTexture q b g) = projection g"
  "projection_saved (gluQuadricTexture q b g) = projection_saved g"
  "modelview (gluQuadricTexture q b g) = modelview g"
  "modelview_saved (gluQuadricTexture q b g) = modelview_saved g"
  "textures (gluQuadricTexture q b g) = textures g"
  "next_texture (gluQuadricTexture q b g) = next_texture g"
  "bound_texture (gluQuadricTexture q b g) = bound_texture g"
  "quadrics (gluQuadricTexture q b g) = AList.map_entry q (\<lambda>obj. obj\<lparr>quadric_texture := b\<rparr>) (quadrics g)"
  "next_quadric (gluQuadricTexture q b g) = next_quadric g"
  "tex_coord (gluQuadricTexture q b g) = tex_coord g"
  "assembling (gluQuadricTexture q b g) = assembling g"
  "framebuffer (gluQuadricTexture q b g) = framebuffer g"
  by (simp_all add: gluQuadricTexture_def)

lemma gluSphere_fields:
  "clear_color (gluSphere q radius slices stacks g) = clear_color g"
  "depth_test (gluSphere q radius slices stacks g) = depth_test g"
  "texture_2d (gluSphere q radius slices stacks g) = texture_2d g"
  "viewport (gluSphere q radius slices stacks g) = viewport g"
  "matrix_mode (gluSphere q radius slices stacks g) = matrix_mode g"
  "projection (gluSphere q radius slices stacks g) = projection g"
  "projection_saved (gluSphere q radius slices stacks g) = projection_saved g"
  "modelview (gluSphere q radius slices stacks g) = modelview g"
  "modelview_saved (gluSphere q radius slices stacks g) = modelview_saved g"
  "textures (gluSphere q radius slices stacks g) = textures g"
  "next_texture (gluSphere q radius slices stacks g) = next_texture g"
  "bound_texture (gluSphere q radius slices stacks g) = bound_texture g"
  "quadrics (gluSphere q radius slices stacks g) = quadrics g"
  "next_quadric (gluSphere q radius slices stacks g) = next_quadric g"
  "tex_coord (gluSphere q radius slices stacks g) = tex_coord g"
  "assembling (gluSphere q radius slices stacks g) = assembling g"
  "framebuffer (gluSphere q radius slices stacks g) = (case map_of (quadrics g) q of None \<Rightarrow> framebuffer g | Some obj \<Rightarrow> framebuffer g @ [Sphere (snapshot g) (quadric_texture obj) radius slices stacks])"
  by (simp_all add: gluSphere_def split: option.split)

lemma gluDeleteQuadric_fields:
  "clear_color (gluDeleteQuadric q g) = clear_color g"
  "depth_test (gluDeleteQuadric q g) = depth_test g"
  "texture_2d (gluDeleteQuadric q g) = texture_2d g"
  "viewport (gluDeleteQuadric q g) = viewport g"
  "matrix_mode (gluDeleteQuadric q g) = matrix_mode g"
  "projection (gluDeleteQuadric q g) = projection g"
  "projection_saved (gluDeleteQuadric q g) = projection_saved g"
  "modelview (gluDeleteQuadric q g) = modelview g"
  "modelview_saved (gluDeleteQuadric q g) = modelview_saved g"
  "textures (gluDeleteQuadric q g) = textures g"
  "next_texture (gluDeleteQuadric q g) = next_texture g"
  "bound_texture (gluDeleteQuadric q g) = bound_texture g"
  "quadrics (gluDeleteQuadric q g) = AList.delete q (quadrics g)"
  "next_quadric (gluDeleteQuadric q g) = next_quadric g"
  "tex_coord (gluDeleteQuadric q g) = tex_coord g"
  "assembling (gluDeleteQuadric q g) = assembling g"
  "framebuffer (gluDeleteQuadric q g) = framebuffer g"
  by (simp_all add: gluDeleteQuadric_def)

lemma glGenTextures_name: "fst (glGenTextures g) = next_texture g"
  by (simp add: glGenTextures_def)

lemma gluNewQuadric_name: "fst (gluNewQuadric g) = next_quadric g"
  by (simp add: gluNewQuadric_def)

lemmas gl_fields =
  glClearColor_fields glEnable_fields glDisable_fields glClear_fields
  glViewport_fields glMatrixMode_fields glLoadIdentity_fields mult_matrix_fields
  glPushMatrix_fields glPopMatrix_fields glGenTextures_fields glBindTexture_fields
  map_bound_fields glBegin_QUADS_fields glTexCoord2f_fields glVertex2f_fields
  glEnd_fields gluNewQuadric_fields gluQuadricTexture_fields gluSphere_fields
  gluDeleteQuadric_fields
  glGenTextures_name gluNewQuadric_name
  gluPerspective_def gluOrtho2D_def glTranslatef_def glRotatef_def glScalef_def
  glTexImage2D_def snapshot_def GL_COLOR_BUFFER_BIT_def GL_DEPTH_BUFFER_BIT_def

lemma render_background_Some:
  assumes "bg_texture self = Some b"
  shows "\<exists>g'. render_background self g = Inr g'
    \<and> projection g' = projection g \<and> projection_saved g' = projection_saved g
    \<and> modelview g' = modelview g \<and> modelview_saved g' = modelview_saved g
    \<and> depth_test g' \<and> texture_2d g' = texture_2d g \<and> matrix_mode g' = GL_MODELVIEW
    \<and> quadrics g' = quadrics g \<and> next_quadric g' = next_quadric g
    \<and> framebuffer g' = framebuffer g @
         [Quad \<lparr>pl_depth_test = False, pl_texturing = texture_2d g,
                pl_projection = [Ortho2D 0 (of_int (sint (width self))) 0 (of_int (sint (height self)))],
                pl_modelview = [], pl_texture = b\<rparr>
           ((0, 0), (0, 0)) 
           ((1, 0), (of_int (sint (width self)), 0))
           ((1, 1), (of_int (sint (width self)), of_int (sint (height self))))
           ((0, 1), (0, of_int (sint (height self))))]"
  using assms
  by (simp add: render_background_def gl_fields Let_def)

section \<open>The methods of the widget\<close>

lemma load_texture_Picture:
  assumes "fs p = Picture img"
  shows "\<exists>g'. load_texture fs p g = Inr (next_texture g, g')
    \<and> clear_color g' = clear_color g \<and> depth_test g' = depth_test g
    \<and> texture_2d g' = texture_2d g \<and> viewport g' = viewport g
    \<and> matrix_mode g' = matrix_mode g
    \<and> projection g' = projection g \<and> projection_saved g' = projection_saved g
    \<and> modelview g' = modelview g \<and> modelview_saved g' = modelview_saved g
    \<and> quadrics g' = quadrics g \<and> next_quadric g' = next_quadric g
    \<and> assembling g' = assembling g \<and> framebuffer g' = framebuffer g
    \<and> next_texture g' = Suc (next_texture g) \<and> bound_texture g' = next_texture g"
  using assms
  by (simp add: load_texture_def Image_open_def gl_fields Let_def case_prod_beta)

lemma load_texture_no_Picture:
  assumes "fs p = Absent \<or> fs p = NotAnImage"
  shows "\<exists>e g'. load_texture fs p g = Inl (e, g')
    \<and> (e = FileNotFoundError \<or> e = UnidentifiedImageError)"
  using assms
  by (auto simp add: load_texture_def Image_open_def Let_def case_prod_beta)

lemma load_texture_quadrics:
  "load_texture fs p g = Inr (t, g') \<Longrightarrow> quadrics g' = quadrics g"
  by (cases "fs p")
     (auto simp add: load_texture_def Image_open_def gl_fields Let_def case_prod_beta)

lemma initializeGL_quadrics:
  "initializeGL fs (self, g) = Inr (self', g') \<Longrightarrow> quadrics g' = quadrics g"
  by (auto simp add: initializeGL_def gl_fields Let_def
      split: sum.splits if_splits dest!: load_texture_quadrics)

lemma initializeGL_no_background:
  assumes "fs (texture_image self) = Picture img" and "background_image self = []"
  shows "\<exists>g'. initializeGL fs (self, g) = Inr (self\<lparr>texture := Some (next_texture g)\<rparr>, g')
    \<and> depth_test g' \<and> texture_2d g' \<and> viewport g' = viewport g
    \<and> matrix_mode g' = matrix_mode g
    \<and> projection g' = projection g \<and> projection_saved g' = projection_saved g
    \<and> modelview g' = modelview g \<and> modelview_saved g' = modelview_saved g
    \<and> quadrics g' = quadrics g \<and> next_quadric g' = next_quadric g
    \<and> assembling g' = assembling g \<and> framebuffer g' = framebuffer g
    \<and> bound_texture g' = next_texture g"
proof -
  let ?g3 = "glEnable GL_TEXTURE_2D (glEnable GL_DEPTH_TEST (glClearColor 0 0 0 1 g))"
  from load_texture_Picture [of fs "texture_image self" img ?g3, OF assms(1)]
  obtain g' where "load_texture fs (texture_image self) ?g3 = Inr (next_texture ?g3, g')"
    and "depth_test g' = depth_test ?g3" and "texture_2d g' = texture_2d ?g3"
    and "viewport g' = viewport ?g3" and "matrix_mode g' = matrix_mode ?g3"
    and "projection g' = projection ?g3" and "projection_saved g' = projection_saved ?g3"
    and "modelview g' = modelview ?g3" and "modelview_saved g' = modelview_saved ?g3"
    and "quadrics g' = quadrics ?g3" and "next_quadric g' = next_quadric ?g3"
    and "assembling g' = assembling ?g3" and "framebuffer g' = framebuffer ?g3"
    and "bound_texture g' = next_texture ?g3"
    by blast
  then show ?thesis
    using assms(2) by (simp add: initializeGL_def gl_fields Let_def)
qed

lemma resizeGL_returns:
  "\<exists>g'. resizeGL w h g = Inr g'
    \<and> projection g' =
        [Perspective 45
          (if sint h = 0 then 1 else round64 (of_int (sint w) / of_int (sint h)))
          (round64 (1 / 10)) 100]
    \<and> projection_saved g' = projection_saved g
    \<and> modelview g' = modelview g \<and> modelview_saved g' = modelview_saved g
    \<and> matrix_mode g' = GL_MODELVIEW \<and> viewport g' = (0, 0, sint w, sint h)
    \<and> depth_test g' = depth_test g \<and> texture_2d g' = texture_2d g
    \<and> quadrics g' = quadrics g \<and> next_quadric g' = next_quadric g
    \<and> bound_texture g' = bound_texture g
    \<and> assembling g' = assembling g \<and> framebuffer g' = framebuffer g"
  by (simp add: resizeGL_def int_truediv_sint gl_fields Let_def)

lemma paintGL_plain:
  assumes "texture self = Some t" and "bg_texture self = None"
  shows "\<exists>g'. paintGL self g = Inr g'
    \<and> framebuffer g' =
        [Sphere \<lparr>pl_depth_test = depth_test g, pl_texturing = texture_2d g,
                  pl_projection =
                    (if matrix_mode g = GL_PROJECTION
                     then [Translate 0 0 (- (9 / 2)), Rotate (angle self) 2 (- 1) (- 1), Scale 1 1 1]
                     else projection g),
                  pl_modelview =
                    (if matrix_mode g = GL_MODELVIEW
                     then [Translate 0 0 (- (9 / 2)), Rotate (angle self) 2 (- 1) (- 1), Scale 1 1 1]
                     else modelview g),
                  pl_texture = t\<rparr>
           True (3 / 2) 32 32]
    \<and> depth_test g' = depth_test g \<and> texture_2d g' = texture_2d g
    \<and> matrix_mode g' = matrix_mode g \<and> viewport g' = viewport g
    \<and> projection_saved g' = projection_saved g \<and> modelview_saved g' = modelview_saved g
    \<and> next_quadric g' = Suc (next_quadric g)
    \<and> quadrics g' = AList.delete (next_quadric g) (quadrics g)"
  using assms
  by (cases "matrix_mode g")
     (simp_all add: paintGL_def draw_textured_sphere_def gl_fields Let_def case_prod_beta)

section \<open>The rotation angle over repeated timeouts\<close>

lemma update_frame_angle: "angle (update_frame s) = float_add (angle s) (1 / 2)"
  by (simp add: update_frame_def)

lemma update_frame_timer: "timer (update_frame s) = timer s"
  by (simp add: update_frame_def)

lemma funpow_update_frame_timer: "timer ((update_frame ^^ n) s) = timer s"
  by (induction n) (simp_all add: update_frame_timer)

lemma angle_funpow_exact:
  assumes "angle s = 0" and "int n \<le> 2 ^ 53"
  shows "angle ((update_frame ^^ n) s) = of_nat n / 2"
  using assms(2)
proof (induction n)
  case 0
  then show ?case by (simp add: assms(1))
next
  case (Suc n)
  then have n: "int n < 2 ^ 53" and IH: "angle ((update_frame ^^ n) s) = of_nat n / 2"
    by simp_all
  have "angle ((update_frame ^^ Suc n) s) = float_add (angle ((update_frame ^^ n) s)) (1 / 2)"
    by (simp add: update_frame_angle)
  also have "\<dots> = float_add (of_nat n / 2) (1 / 2)" by (simp only: IH)
  also have "\<dots> = of_nat (Suc n) / 2" using n by (rule float_add_half)
  finally show ?case .
qed

lemma angle_funpow_stuck:
  assumes "angle s = 0"
  shows "angle ((update_frame ^^ (2 ^ 53 + d)) s) = 2 ^ 52"
proof (induction d)
  case 0
  have "angle ((update_frame ^^ (2 ^ 53)) s) = of_nat (2 ^ 53) / 2"
    by (rule angle_funpow_exact [OF assms]) simp
  then show ?case by simp
next
  case (Suc d)
  have "angle ((update_frame ^^ (2 ^ 53 + Suc d)) s) =
      float_add (angle ((update_frame ^^ (2 ^ 53 + d)) s)) (1 / 2)"
    by (simp only: add_Suc_right funpow.simps o_apply update_frame_angle)
  also have "\<dots> = float_add (2 ^ 52) (1 / 2)" by (simp only: Suc)
  also have "\<dots> = 2 ^ 52" by (rule float_add_stuck)
  finally show ?case .
qed

lemma run_timeouts:
  assumes "isActive (timer self)"
  shows "run fs (replicate n Timeout @ es) (self, g) = run fs es ((update_frame ^^ n) self, g)"
  using assms
proof (induction n arbitrary: self)
  case 0
  then show ?case by simp
next
  case (Suc n)
  then show ?case
    by (simp add: update_frame_timer funpow_swap1)
qed


lemma angle_funpow_min:
  assumes "angle s = 0"
  shows "angle ((update_frame ^^ N) s) = of_nat (min N (2 ^ 53)) / 2"
proof (cases "int N \<le> 2 ^ 53")
  case True
  then have "N \<le> 2 ^ 53" by (simp add: le_nat_iff flip: nat_le_iff)
  then have "min N (2 ^ 53) = N" by simp
  with angle_funpow_exact [OF assms True] show ?thesis by simp
next
  case False
  then have "2 ^ 53 \<le> N" by (simp add: nat_le_iff flip: of_nat_le_iff)
  then obtain d where N: "N = 2 ^ 53 + d" using le_Suc_ex by blast
  then have "min N (2 ^ 53) = 2 ^ 53" by simp
  with angle_funpow_stuck [OF assms, of d] show ?thesis by (simp add: N)
qed

lemma funpow_update_frame_fields:
  "texture ((update_frame ^^ n) s) = texture s"
  "bg_texture ((update_frame ^^ n) s) = bg_texture s"
  "texture_image ((update_frame ^^ n) s) = texture_image s"
  "background_image ((update_frame ^^ n) s) = background_image s"
  "width ((update_frame ^^ n) s) = width s"
  "height ((update_frame ^^ n) s) = height s"
  by (induction n) (simp_all add: update_frame_def)

lemma run_append:
  "run fs (xs @ ys) s = (case run fs xs s of Inl e \<Rightarrow> Inl e | Inr s' \<Rightarrow> run fs ys s')"
  by (induction xs arbitrary: s) (simp_all split: sum.split)

lemma quotient_sint_normal:
  fixes w h :: "32 word"
  assumes "sint w \<noteq> 0" and "sint h \<noteq> 0"
  shows "2 powi (- 1022) \<le> \<bar>(of_int (sint w) :: rat) / of_int (sint h)\<bar>"
proof -
  have "\<bar>sint h\<bar> \<le> 2 ^ 31"
    using sint_ge [of h] sint_lt [of h] by simp
  then have den: "\<bar>of_int (sint h) :: rat\<bar> \<le> 2 ^ 31"
    by (metis of_int_abs of_int_le_iff of_int_numeral of_int_power)
  have dpos: "0 < \<bar>of_int (sint h) :: rat\<bar>"
    using assms(2) by (simp del: of_int_sint)
  from assms(1) have "1 \<le> \<bar>sint w\<bar>" by simp
  then have num: "1 \<le> \<bar>of_int (sint w) :: rat\<bar>"
    by (metis of_int_abs of_int_1_le_iff)
  have "(2::rat) powi (- 1022) \<le> 2 powi (- 31)"
    by (rule power_int_increasing) simp_all
  also have "\<dots> = 1 / 2 ^ 31" by (simp add: power_int_minus_divide)
  also have "\<dots> \<le> 1 / \<bar>of_int (sint h)\<bar>"
    using den dpos by (intro divide_left_mono) auto
  also have "\<dots> \<le> \<bar>of_int (sint w)\<bar> / \<bar>of_int (sint h)\<bar>"
    using num dpos by (intro divide_right_mono) auto
  finally show ?thesis by (simp only: abs_divide)
qed

section \<open>Frames and runs\<close>

text \<open>
  What one call of \<^verbatim>\<open>paintGL\<close> draws when a background texture is set, what it does
  to the quadric objects, and two properties that every event preserves: no quadric
  object is alive between events, and a widget that was initialised without a
  background keeps painting without one.
\<close>

lemma paintGL_background:
  assumes "texture self = Some t" and "bg_texture self = Some b"
  shows "\<exists>g'. paintGL self g = Inr g'
    \<and> framebuffer g' =
        [Quad \<lparr>pl_depth_test = False, pl_texturing = texture_2d g,
                pl_projection =
                  [Ortho2D 0 (of_int (sint (width self))) 0 (of_int (sint (height self)))],
                pl_modelview = [], pl_texture = b\<rparr>
           ((0, 0), (0, 0))
           ((1, 0), (of_int (sint (width self)), 0))
           ((1, 1), (of_int (sint (width self)), of_int (sint (height self))))
           ((0, 1), (0, of_int (sint (height self)))),
         Sphere \<lparr>pl_depth_test = True, pl_texturing = texture_2d g,
                  pl_projection = (if matrix_mode g = GL_PROJECTION then [] else projection g),
                  pl_modelview =
                    (if matrix_mode g = GL_MODELVIEW then [] else modelview g) @
                    [Translate 0 0 (- (9 / 2)), Rotate (angle self) 2 (- 1) (- 1), Scale 1 1 1],
                  pl_texture = t\<rparr>
           True (3 / 2) 32 32]
    \<and> depth_test g' \<and> texture_2d g' = texture_2d g
    \<and> matrix_mode g' = GL_MODELVIEW \<and> viewport g' = viewport g
    \<and> projection_saved g' = projection_saved g \<and> modelview_saved g' = modelview_saved g
    \<and> next_quadric g' = Suc (next_quadric g)
    \<and> quadrics g' = AList.delete (next_quadric g) (quadrics g)"
proof -
  let ?g2 = "glLoadIdentity (glClear (GL_COLOR_BUFFER_BIT OR GL_DEPTH_BUFFER_BIT) g)"
  from render_background_Some [OF assms(2), of ?g2]
  obtain g3 where "render_background self ?g2 = Inr g3"
    and "projection g3 = projection ?g2" and "projection_saved g3 = projection_saved ?g2"
    and "modelview g3 = modelview ?g2" and "modelview_saved g3 = modelview_saved ?g2"
    and "depth_test g3" and "texture_2d g3 = texture_2d ?g2" and "matrix_mode g3 = GL_MODELVIEW"
    and "quadrics g3 = quadrics ?g2" and "next_quadric g3 = next_quadric ?g2"
    and "framebuffer g3 = framebuffer ?g2 @
         [Quad \<lparr>pl_depth_test = False, pl_texturing = texture_2d ?g2,
                pl_projection = [Ortho2D 0 (of_int (sint (width self))) 0 (of_int (sint (height self)))],
                pl_modelview = [], pl_texture = b\<rparr>
           ((0, 0), (0, 0))
           ((1, 0), (of_int (sint (width self)), 0))
           ((1, 1), (of_int (sint (width self)), of_int (sint (height self))))
           ((0, 1), (0, of_int (sint (height self))))]"
    and "viewport g3 = viewport ?g2"
    by (auto simp add: render_background_def gl_fields Let_def assms(2))
  then show ?thesis
    using assms
    by (cases "matrix_mode g")
       (simp_all add: paintGL_def draw_textured_sphere_def gl_fields Let_def case_prod_beta)
qed

lemma paintGL_None:
  assumes "texture self = None"
  shows "\<exists>g'. paintGL self g = Inl (ArgumentError, g')"
proof (cases "bg_texture self")
  case None
  with assms show ?thesis
    by (simp add: paintGL_def draw_textured_sphere_def Let_def)
next
  case (Some b)
  let ?g2 = "glLoadIdentity (glClear (GL_COLOR_BUFFER_BIT OR GL_DEPTH_BUFFER_BIT) g)"
  from render_background_Some [OF Some, of ?g2]
  obtain g3 where "render_background self ?g2 = Inr g3" by blast
  with assms Some show ?thesis
    by (simp add: paintGL_def draw_textured_sphere_def Let_def)
qed

lemma paintGL_quadrics:
  assumes "paintGL self g = Inr g'"
  shows "next_quadric g' = Suc (next_quadric g)
    \<and> quadrics g' = AList.delete (next_quadric g) (quadrics g)"
proof (cases "texture self")
  case None
  from paintGL_None [OF None, of g] assms show ?thesis by auto
next
  case (Some t)
  show ?thesis
  proof (cases "bg_texture self")
    case None
    from paintGL_plain [OF Some None, of g] assms show ?thesis by auto
  next
    case (Some b)
    from paintGL_background [OF \<open>texture self = Some t\<close> Some, of g] assms
    show ?thesis by auto
  qed
qed

lemma dispatch_quadrics_empty:
  assumes "dispatch fs e (self, g) = Inr (self', g')" and "quadrics g = []"
  shows "quadrics g' = []"
proof (cases e)
  case InitializeGL
  with assms show ?thesis by (auto dest: initializeGL_quadrics)
next
  case (Resize w h)
  from resizeGL_returns [of w h g] obtain g1 where "resizeGL w h g = Inr g1"
    and "quadrics g1 = quadrics g" by blast
  with assms Resize show ?thesis by (auto simp: Let_def)
next
  case Paint
  with assms(1) obtain "paintGL (self\<lparr>update_pending := False\<rparr>) g = Inr g'"
    by (auto simp: Let_def split: sum.splits)
  from paintGL_quadrics [OF this] assms(2) show ?thesis by simp
next
  case Timeout
  with assms show ?thesis by (auto split: if_splits)
qed

lemma run_quadrics_empty:
  assumes "run fs evs (self, g) = Inr (self', g')" and "quadrics g = []"
  shows "quadrics g' = []"
  using assms
proof (induction evs arbitrary: self g)
  case Nil
  then show ?case by simp
next
  case (Cons e evs)
  from Cons.prems(1) obtain self1 g1 where d: "dispatch fs e (self, g) = Inr (self1, g1)"
    and r: "run fs evs (self1, g1) = Inr (self', g')"
    by (auto split: sum.splits)
  from dispatch_quadrics_empty [OF d Cons.prems(2)] have "quadrics g1 = []" .
  with Cons.IH [OF r] show ?case .
qed

lemma dispatch_ready_plain:
  assumes "texture self \<noteq> None" and "bg_texture self = None"
    and "background_image self = []" and "fs (texture_image self) = Picture img"
  shows "\<exists>self' g'. dispatch fs e (self, g) = Inr (self', g')
    \<and> texture self' \<noteq> None \<and> bg_texture self' = None
    \<and> background_image self' = [] \<and> texture_image self' = texture_image self"
proof (cases e)
  case InitializeGL
  from initializeGL_no_background
    [where fs = fs and self = self and img = img and g = g, OF assms(4) assms(3)]
  obtain g' where "initializeGL fs (self, g) = Inr (self\<lparr>texture := Some (next_texture g)\<rparr>, g')"
    by blast
  with InitializeGL assms show ?thesis by simp
next
  case (Resize w h)
  from resizeGL_returns [of w h g] obtain g1 where "resizeGL w h g = Inr g1" by blast
  with Resize assms show ?thesis by (simp add: Let_def)
next
  case Paint
  from assms(1) obtain t where "texture (self\<lparr>update_pending := False\<rparr>) = Some t" by auto
  moreover have "bg_texture (self\<lparr>update_pending := False\<rparr>) = None" using assms(2) by simp
  ultimately obtain g' where "paintGL (self\<lparr>update_pending := False\<rparr>) g = Inr g'"
    using paintGL_plain [of "self\<lparr>update_pending := False\<rparr>" t g] by blast
  with Paint assms show ?thesis by (simp add: Let_def)
next
  case Timeout
  with assms show ?thesis by (simp add: update_frame_def)
qed

lemma run_ready_plain:
  assumes "texture self \<noteq> None" and "bg_texture self = None"
    and "background_image self = []" and "fs (texture_image self) = Picture img"
  shows "\<exists>self' g'. run fs evs (self, g) = Inr (self', g')
    \<and> texture self' \<noteq> None \<and> bg_texture self' = None"
  using assms
proof (induction evs arbitrary: self g)
  case Nil
  then show ?case by simp
next
  case (Cons e evs)
  from dispatch_ready_plain
    [where fs = fs and self = self and img = img and e = e and g = g, OF Cons.prems]
  obtain self1 g1 where d: "dispatch fs e (self, g) = Inr (self1, g1)"
    and "texture self1 \<noteq> None" and "bg_texture self1 = None"
    and "background_image self1 = []" and "texture_image self1 = texture_image self"
    by blast
  with Cons.IH [of self1 g1] Cons.prems(4) show ?case by simp
qed

lemma scenario_frame:
  assumes pic: "fs (texture_image self0) = Picture img"
    and nobg: "background_image self0 = []" "bg_texture self0 = None"
    and act: "isActive (timer self0)"
  shows "\<exists>self g. run fs (replicate m Timeout @ [InitializeGL, Resize w h] @ replicate n Timeout @ [Paint])
        (self0, fresh_context) = Inr (self, g)
    \<and> angle self = angle ((update_frame ^^ (m + n)) self0)
    \<and> texture self = Some 1 \<and> bg_texture self = None
    \<and> framebuffer g =
        [Sphere \<lparr>pl_depth_test = True, pl_texturing = True,
                  pl_projection =
                    [Perspective 45
                      (if sint h = 0 then 1 else round64 (of_int (sint w) / of_int (sint h)))
                      (round64 (1 / 10)) 100],
                  pl_modelview =
                    [Translate 0 0 (- (9 / 2)),
                     Rotate (angle ((update_frame ^^ (m + n)) self0)) 2 (- 1) (- 1),
                     Scale 1 1 1],
                  pl_texture = 1\<rparr>
           True (3 / 2) 32 32]"
proof -
  define s1 where "s1 = (update_frame ^^ m) self0"
  have s1: "fs (texture_image s1) = Picture img" "background_image s1 = []"
    "bg_texture s1 = None" "isActive (timer s1)"
    using assms by (simp_all add: s1_def funpow_update_frame_fields funpow_update_frame_timer)
  from initializeGL_no_background
    [where fs = fs and self = s1 and img = img and g = fresh_context, OF s1(1) s1(2)]
  obtain g1 where i: "initializeGL fs (s1, fresh_context) = Inr (s1\<lparr>texture := Some 1\<rparr>, g1)"
    and g1: "depth_test g1" "texture_2d g1" "quadrics g1 = []" "framebuffer g1 = []"
    by (auto simp: fresh_context_def)
  from resizeGL_returns [of w h g1]
  obtain g2 where r: "resizeGL w h g1 = Inr g2"
    and g2: "projection g2 =
        [Perspective 45 (if sint h = 0 then 1 else round64 (of_int (sint w) / of_int (sint h)))
          (round64 (1 / 10)) 100]"
      "matrix_mode g2 = GL_MODELVIEW" "depth_test g2" "texture_2d g2"
    using g1 by auto
  define s2 where "s2 = s1\<lparr>texture := Some 1, width := w, height := h\<rparr>"
  define s3 where "s3 = ((update_frame ^^ n) s2)\<lparr>update_pending := False\<rparr>"
  have s3: "texture s3 = Some 1" "bg_texture s3 = None"
    using s1 by (simp_all add: s3_def s2_def funpow_update_frame_fields)
  have "angle ((update_frame ^^ k) a) = angle ((update_frame ^^ k) b)" if "angle a = angle b" for k a b
    using that by (induction k) (simp_all add: update_frame_angle)
  from this [of s2 s1 n] have "angle ((update_frame ^^ n) s2) = angle ((update_frame ^^ n) s1)"
    by (simp add: s2_def)
  moreover have "(update_frame ^^ (m + n)) self0 = (update_frame ^^ n) s1"
    unfolding s1_def by (subst add.commute) (simp add: funpow_add)
  ultimately have a3: "angle s3 = angle ((update_frame ^^ (m + n)) self0)"
    by (simp add: s3_def)
  from paintGL_plain [OF s3, of g2]
  obtain g3 where p: "paintGL s3 g2 = Inr g3"
    and f: "framebuffer g3 =
        [Sphere \<lparr>pl_depth_test = True, pl_texturing = True,
                  pl_projection =
                    [Perspective 45
                      (if sint h = 0 then 1 else round64 (of_int (sint w) / of_int (sint h)))
                      (round64 (1 / 10)) 100],
                  pl_modelview =
                    [Translate 0 0 (- (9 / 2)), Rotate (angle s3) 2 (- 1) (- 1), Scale 1 1 1],
                  pl_texture = 1\<rparr>
           True (3 / 2) 32 32]"
    using g2 by auto
  have act2: "isActive (timer s2)" using s1(4) by (simp add: s2_def)
  have "run fs (replicate m Timeout @ [InitializeGL, Resize w h] @ replicate n Timeout @ [Paint])
        (self0, fresh_context)
      = run fs ([InitializeGL, Resize w h] @ replicate n Timeout @ [Paint]) (s1, fresh_context)"
    unfolding s1_def by (rule run_timeouts [OF act])
  also have "\<dots> = run fs (replicate n Timeout @ [Paint]) (s2, g2)"
    by (simp add: i r s2_def Let_def)
  also have "\<dots> = run fs [Paint] ((update_frame ^^ n) s2, g2)"
    by (rule run_timeouts [OF act2])
  also have "\<dots> = Inr (s3, g3)"
    using p by (simp add: s3_def Let_def)
  finally show ?thesis
    using s3 f a3 by simp
qed

section \<open>The claims\<close>

subsection \<open>C3: the angle after N timeouts\<close>

text \<open>
  C3, as amended. Starting from the angle 0 that the constructor sets, \<open>N\<close> calls of
  \<^verbatim>\<open>update_frame\<close> leave the angle at \<open>0.5 \<times> N\<close> for every \<open>N\<close> up to \<open>2 ^ 53\<close>, and
  at \<open>2 ^ 52\<close> from then on: the angle after \<open>N\<close> calls is half of the smaller of \<open>N\<close>
  and \<open>2 ^ 53\<close>. The angle never decreases from one call to the next.
\<close>

theorem angle_after_advances:
  "angle ((update_frame ^^ N) (OpenGLWindow_init t b)) = of_nat (min N (2 ^ 53)) / 2
   \<and> angle ((update_frame ^^ N) (OpenGLWindow_init t b))
       \<le> angle ((update_frame ^^ Suc N) (OpenGLWindow_init t b))"
proof -
  have a0: "angle (OpenGLWindow_init t b) = 0" by (simp add: OpenGLWindow_init_def)
  have "(of_nat (min N (2 ^ 53)) :: rat) \<le> of_nat (min (Suc N) (2 ^ 53))"
    by (simp only: of_nat_le_iff min_def split: if_split) simp
  then show ?thesis
    by (simp only: angle_funpow_min [OF a0] divide_right_mono)
qed

text \<open>
  One instance: ten calls leave the angle at 5.
\<close>

theorem angle_after_advances_witness:
  "angle ((update_frame ^^ 10) (OpenGLWindow_init ''earth.jpg'' '''')) = 5"
  using angle_after_advances [of 10 "''earth.jpg''" "''''"] by simp

text \<open>
  The claim as it was stated, \<open>0.5 \<times> N\<close> for every natural number \<open>N\<close>, fails at
  \<open>N = 2 ^ 53 + 2\<close>. After \<open>2 ^ 53\<close> calls the angle is the float \<open>2 ^ 52\<close>; the sum of
  \<open>2 ^ 52\<close> and \<open>0.5\<close> lies halfway between two neighbouring floats and rounds back
  to \<open>2 ^ 52\<close>, so the angle stays there, while \<open>0.5 \<times> N\<close> is \<open>2 ^ 52 + 1\<close>.
\<close>

theorem angle_not_half_of_count:
  "angle ((update_frame ^^ 9007199254740994) (OpenGLWindow_init ''earth.jpg'' ''''))
     \<noteq> (1 / 2) * of_nat 9007199254740994"
proof -
  have a0: "angle (OpenGLWindow_init ''earth.jpg'' '''') = 0"
    by (simp add: OpenGLWindow_init_def)
  have "(9007199254740994 :: nat) = 2 ^ 53 + 2" by simp
  then have "angle ((update_frame ^^ 9007199254740994) (OpenGLWindow_init ''earth.jpg'' ''''))
      = 2 ^ 52"
    using angle_funpow_stuck [OF a0, of 2] by (simp only:)
  then show ?thesis by simp
qed


subsection \<open>C2: the projection set up by a resize\<close>

text \<open>
  C2. For every width and height that Qt can report, \<^verbatim>\<open>resizeGL\<close> returns without
  raising and leaves the projection matrix equal to one perspective projection with
  field of view 45, near plane at the float written 0.1 and far plane at 100. When the
  height is positive the aspect ratio passed is Python's \<^verbatim>\<open>w / h\<close>, the float nearest to
  the quotient of width and height, which differs from the quotient by at most its
  \<open>2 ^ 53\<close>-th part; when the height is zero the aspect ratio is exactly 1.
\<close>

theorem resizeGL_projection:
  "\<exists>g' aspect. resizeGL w h g = Inr g'
     \<and> projection g' = [Perspective 45 aspect (round64 (1 / 10)) 100]
     \<and> (0 < sint h \<longrightarrow>
          aspect = round64 (of_int (sint w) / of_int (sint h))
          \<and> \<bar>aspect - of_int (sint w) / of_int (sint h)\<bar>
              \<le> \<bar>of_int (sint w) / of_int (sint h)\<bar> / 2 ^ 53)
     \<and> (sint h = 0 \<longrightarrow> aspect = 1)"
proof -
  define x :: rat where "x = of_int (sint w) / of_int (sint h)"
  have err: "\<bar>round64 x - x\<bar> \<le> \<bar>x\<bar> / 2 ^ 53" if "0 < sint h"
  proof (cases "sint w = 0")
    case True
    then show ?thesis by (simp add: x_def round64_def)
  next
    case False
    with that have "2 powi (- 1022) \<le> \<bar>x\<bar>"
      unfolding x_def by (intro quotient_sint_normal) simp_all
    then show ?thesis by (rule round64_rel_error)
  qed
  from resizeGL_returns [of w h g]
  obtain g' where "resizeGL w h g = Inr g'"
    and "projection g' =
        [Perspective 45 (if sint h = 0 then 1 else round64 x) (round64 (1 / 10)) 100]"
    unfolding x_def by blast
  with err show ?thesis
    unfolding x_def by (intro exI [of _ g'] exI [of _ "if sint h = 0 then 1 else round64 x"]) (auto simp: x_def)
qed

text \<open>
  Two instances: the 800 by 600 window, and a window of height zero.
\<close>

theorem resizeGL_projection_witness:
  "0 < sint (600 :: 32 word) \<and> sint (0 :: 32 word) = 0
   \<and> (\<exists>g'. resizeGL 800 600 fresh_context = Inr g'
         \<and> projection g' = [Perspective 45 (round64 (4 / 3)) (round64 (1 / 10)) 100])
   \<and> (\<exists>g'. resizeGL 800 0 fresh_context = Inr g'
         \<and> projection g' = [Perspective 45 1 (round64 (1 / 10)) 100])"
  using resizeGL_projection [of 800 600 fresh_context]
    resizeGL_projection [of 800 0 fresh_context]
  by auto

subsection \<open>C9: what a timeout changes\<close>

text \<open>
  C9. A call of \<^verbatim>\<open>update_frame\<close> leaves the sphere texture handle, the background
  texture handle, both image paths, the timer and the widget's size as they were; it
  requests a repaint; and it replaces the angle by the float sum of the angle and 0.5,
  which is the angle plus 0.5 exactly whenever the angle is one of the values \<open>k / 2\<close>,
  \<open>k < 2 ^ 53\<close>, that the program reaches from 0.
\<close>

theorem update_frame_changes_angle_only:
  "texture (update_frame self) = texture self
   \<and> bg_texture (update_frame self) = bg_texture self
   \<and> texture_image (update_frame self) = texture_image self
   \<and> background_image (update_frame self) = background_image self
   \<and> timer (update_frame self) = timer self
   \<and> width (update_frame self) = width self
   \<and> height (update_frame self) = height self
   \<and> update_pending (update_frame self)
   \<and> angle (update_frame self) = float_add (angle self) (1 / 2)
   \<and> (\<forall>k. int k < 2 ^ 53 \<and> angle self = of_nat k / 2
         \<longrightarrow> angle (update_frame self) = angle self + 1 / 2)"
proof -
  have "angle (update_frame self) = angle self + 1 / 2"
    if "int k < 2 ^ 53" and "angle self = of_nat k / 2" for k
  proof -
    have "angle (update_frame self) = float_add (of_nat k / 2) (1 / 2)"
      by (simp only: update_frame_angle that(2))
    also have "\<dots> = of_nat (Suc k) / 2" using that(1) by (rule float_add_half)
    also have "\<dots> = angle self + 1 / 2" by (simp add: that(2) field_simps)
    finally show ?thesis .
  qed
  then have half: "\<forall>k. int k < 2 ^ 53 \<and> angle self = of_nat k / 2
      \<longrightarrow> angle (update_frame self) = angle self + 1 / 2"
    by blast
  have "texture (update_frame self) = texture self
      \<and> bg_texture (update_frame self) = bg_texture self
      \<and> texture_image (update_frame self) = texture_image self
      \<and> background_image (update_frame self) = background_image self
      \<and> timer (update_frame self) = timer self
      \<and> width (update_frame self) = width self
      \<and> height (update_frame self) = height self
      \<and> update_pending (update_frame self)
      \<and> angle (update_frame self) = float_add (angle self) (1 / 2)"
    by (simp add: update_frame_def)
  with half show ?thesis by blast
qed

text \<open>
  One instance: from the angle 1.5 the call gives the angle 2 and the timer is as the
  constructor left it.
\<close>

theorem update_frame_changes_angle_only_witness:
  "int 3 < 2 ^ 53
   \<and> angle ((OpenGLWindow_init ''earth.jpg'' '''')\<lparr>angle := 3 / 2\<rparr>) = of_nat 3 / 2
   \<and> angle (update_frame ((OpenGLWindow_init ''earth.jpg'' '''')\<lparr>angle := 3 / 2\<rparr>)) = 2
   \<and> timer (update_frame ((OpenGLWindow_init ''earth.jpg'' '''')\<lparr>angle := 3 / 2\<rparr>))
       = \<lparr>interval = 16, isActive = True\<rparr>"
  using update_frame_changes_angle_only [of "(OpenGLWindow_init ''earth.jpg'' '''')\<lparr>angle := 3 / 2\<rparr>"]
  by (auto simp: OpenGLWindow_init_def)

subsection \<open>C4: a texture file that cannot be loaded\<close>

text \<open>
  C4. When the texture path names no file, or a file that is not a picture,
  \<^verbatim>\<open>initializeGL\<close> on the newly constructed widget raises
  \<^verbatim>\<open>FileNotFoundError\<close> or \<^verbatim>\<open>UnidentifiedImageError\<close> (the image load error of the
  specification). The widget is left exactly as the constructor made it, so no sphere
  texture handle is stored, and the run ends there with that exception whatever events
  were to follow.
\<close>

theorem initializeGL_unreadable_texture:
  assumes "fs t = Absent \<or> fs t = NotAnImage"
  shows "\<exists>e g'. initializeGL fs (OpenGLWindow_init t b, g) = Inl (e, (OpenGLWindow_init t b, g'))
     \<and> (e = FileNotFoundError \<or> e = UnidentifiedImageError)
     \<and> texture (OpenGLWindow_init t b) = None
     \<and> run fs (InitializeGL # evs) (OpenGLWindow_init t b, g)
         = Inl (e, (OpenGLWindow_init t b, g'))"
proof -
  let ?self = "OpenGLWindow_init t b"
  let ?g3 = "glEnable GL_TEXTURE_2D (glEnable GL_DEPTH_TEST (glClearColor 0 0 0 1 g))"
  have "fs (texture_image ?self) = Absent \<or> fs (texture_image ?self) = NotAnImage"
    using assms by (simp add: OpenGLWindow_init_def)
  from load_texture_no_Picture [of fs "texture_image ?self" ?g3, OF this]
  obtain e g' where "load_texture fs (texture_image ?self) ?g3 = Inl (e, g')"
    and "e = FileNotFoundError \<or> e = UnidentifiedImageError"
    by blast
  then have "initializeGL fs (?self, g) = Inl (e, (?self, g'))"
    by (simp add: initializeGL_def Let_def)
  moreover have "texture ?self = None" by (simp add: OpenGLWindow_init_def)
  ultimately show ?thesis
    using \<open>e = FileNotFoundError \<or> e = UnidentifiedImageError\<close> by auto
qed

text \<open>
  One instance: a path that the example file system does not have.
\<close>

theorem initializeGL_unreadable_texture_witness:
  "(example_fs ''moon.jpg'' = Absent \<or> example_fs ''moon.jpg'' = NotAnImage)
   \<and> (\<exists>e g'. initializeGL example_fs (OpenGLWindow_init ''moon.jpg'' '''', fresh_context)
         = Inl (e, (OpenGLWindow_init ''moon.jpg'' '''', g'))
       \<and> (e = FileNotFoundError \<or> e = UnidentifiedImageError))"
proof -
  have h: "example_fs ''moon.jpg'' = Absent \<or> example_fs ''moon.jpg'' = NotAnImage"
    by (simp add: example_fs_def)
  from initializeGL_unreadable_texture
    [of example_fs "''moon.jpg''" "''''" fresh_context "[]", OF h] h
  show ?thesis by blast
qed


subsection \<open>C1: initialise, resize, ten timeouts, paint\<close>

text \<open>
  C1. With a picture at \<^verbatim>\<open>earth.jpg\<close> and an empty background path, the run
  \<^verbatim>\<open>initializeGL\<close>, resize to 800 by 600, ten timeouts, \<^verbatim>\<open>paintGL\<close> returns with
  the angle at 5 and a frame that holds exactly one primitive, the textured sphere of
  radius 1.5 with 32 slices and 32 stacks: no background quad is drawn. The sphere is
  drawn under the modelview matrix built from the identity by the translation by
  \<open>- 4.5\<close> along the view axis, then the rotation by the angle 5 about the axis
  \<open>(2, - 1, - 1)\<close>, then the unit scaling, under the perspective projection of the
  resize, with depth test and texturing on and the sphere texture bound.
\<close>

theorem scenario_ten_advances:
  assumes "fs ''earth.jpg'' = Picture img"
  shows "\<exists>self g sp.
      run fs ([InitializeGL, Resize 800 600] @ replicate 10 Timeout @ [Paint])
        (start ''earth.jpg'' '''') = Inr (self, g)
    \<and> angle self = 5
    \<and> framebuffer g = [Sphere sp True (3 / 2) 32 32]
    \<and> pl_modelview sp = [Translate 0 0 (- (9 / 2)), Rotate 5 2 (- 1) (- 1), Scale 1 1 1]
    \<and> pl_projection sp = [Perspective 45 (round64 (4 / 3)) (round64 (1 / 10)) 100]
    \<and> pl_depth_test sp \<and> pl_texturing sp
    \<and> texture self = Some (pl_texture sp) \<and> bg_texture self = None"
proof -
  let ?self0 = "OpenGLWindow_init ''earth.jpg'' ''''"
  have pre: "fs (texture_image ?self0) = Picture img" "background_image ?self0 = []"
    "bg_texture ?self0 = None" "isActive (timer ?self0)" "angle ?self0 = 0"
    using assms by (simp_all add: OpenGLWindow_init_def)
  have a: "angle ((update_frame ^^ (0 + 10)) ?self0) = 5"
    using angle_funpow_exact [OF pre(5), of 10] by simp
  from scenario_frame [where fs = fs and ?self0.0 = ?self0 and img = img and m = 0 and n = 10
      and w = 800 and h = 600, OF pre(1-4)]
  show ?thesis
    unfolding a by (auto simp: start_def)
qed

text \<open>
  The instance with the example file system.
\<close>

theorem scenario_ten_advances_witness:
  "example_fs ''earth.jpg'' = Picture earth_img
   \<and> (\<exists>self g sp.
        run example_fs ([InitializeGL, Resize 800 600] @ replicate 10 Timeout @ [Paint])
          (start ''earth.jpg'' '''') = Inr (self, g)
      \<and> angle self = 5
      \<and> framebuffer g = [Sphere sp True (3 / 2) 32 32]
      \<and> pl_modelview sp = [Translate 0 0 (- (9 / 2)), Rotate 5 2 (- 1) (- 1), Scale 1 1 1])"
proof -
  have h: "example_fs ''earth.jpg'' = Picture earth_img"
    by (simp add: example_fs_def)
  from scenario_ten_advances [where fs = example_fs and img = earth_img, OF h] h
  show ?thesis by blast
qed

subsection \<open>C5: an empty background path\<close>

text \<open>
  C5. With a picture at the texture path and the empty string as background path,
  \<^verbatim>\<open>initializeGL\<close> on the new widget returns normally, with a sphere texture
  handle stored and the background texture handle still \<^verbatim>\<open>None\<close>. Whatever events
  follow, none of them raises, and every \<^verbatim>\<open>paintGL\<close> after them leaves a frame that
  consists of the sphere alone: no background quad is drawn.
\<close>

theorem no_background_without_path:
  assumes "fs t = Picture img"
  shows "\<exists>self g'. initializeGL fs (OpenGLWindow_init t '''', g) = Inr (self, g')
    \<and> texture self \<noteq> None \<and> bg_texture self = None
    \<and> (\<forall>evs. \<exists>self' g'' sp. run fs (evs @ [Paint]) (self, g') = Inr (self', g'')
          \<and> framebuffer g'' = [Sphere sp True (3 / 2) 32 32])"
proof -
  let ?self0 = "OpenGLWindow_init t ''''"
  have pre: "fs (texture_image ?self0) = Picture img" "background_image ?self0 = []"
    using assms by (simp_all add: OpenGLWindow_init_def)
  from initializeGL_no_background
    [where fs = fs and self = ?self0 and img = img and g = g, OF pre]
  obtain g' where i: "initializeGL fs (?self0, g) = Inr (?self0\<lparr>texture := Some (next_texture g)\<rparr>, g')"
    by blast
  let ?self = "?self0\<lparr>texture := Some (next_texture g)\<rparr>"
  have rdy: "texture ?self \<noteq> None" "bg_texture ?self = None"
    "background_image ?self = []" "fs (texture_image ?self) = Picture img"
    using assms by (simp_all add: OpenGLWindow_init_def)
  have "\<exists>self' g'' sp. run fs (evs @ [Paint]) (?self, g') = Inr (self', g'')
          \<and> framebuffer g'' = [Sphere sp True (3 / 2) 32 32]" for evs
  proof -
    from run_ready_plain
      [where fs = fs and self = ?self and img = img and evs = evs and g = g', OF rdy]
    obtain s1 g1 where r: "run fs evs (?self, g') = Inr (s1, g1)"
      and "texture s1 \<noteq> None" and nb: "bg_texture s1 = None"
      by blast
    then obtain t1 where "texture (s1\<lparr>update_pending := False\<rparr>) = Some t1" by auto
    moreover have "bg_texture (s1\<lparr>update_pending := False\<rparr>) = None" using nb by simp
    ultimately obtain g2 sp where "paintGL (s1\<lparr>update_pending := False\<rparr>) g1 = Inr g2"
      and "framebuffer g2 = [Sphere sp True (3 / 2) 32 32]"
      using paintGL_plain [of "s1\<lparr>update_pending := False\<rparr>" t1 g1] by blast
    then show ?thesis
      by (simp add: run_append r Let_def)
  qed
  with i rdy(1,2) show ?thesis by blast
qed

text \<open>
  The instance with the example file system and one sequence of events.
\<close>

theorem no_background_without_path_witness:
  "example_fs ''earth.jpg'' = Picture earth_img
   \<and> (\<exists>self g'. initializeGL example_fs (OpenGLWindow_init ''earth.jpg'' '''', fresh_context)
          = Inr (self, g')
        \<and> texture self \<noteq> None \<and> bg_texture self = None
        \<and> (\<exists>self' g'' sp.
              run example_fs ([Resize 800 600, Timeout, Paint, Timeout] @ [Paint]) (self, g')
                = Inr (self', g'')
            \<and> framebuffer g'' = [Sphere sp True (3 / 2) 32 32]))"
proof -
  have h: "example_fs ''earth.jpg'' = Picture earth_img"
    by (simp add: example_fs_def)
  from no_background_without_path
    [where fs = example_fs and t = "''earth.jpg''" and img = earth_img and g = fresh_context, OF h] h
  show ?thesis by blast
qed

subsection \<open>C6: the corners of the background quad\<close>

text \<open>
  C6. For a widget with both textures, after a resize to any width and height the next
  \<^verbatim>\<open>paintGL\<close> draws first a quad, textured with the background, whose vertices
  carry the texture coordinates \<open>(0, 0)\<close>, \<open>(1, 0)\<close>, \<open>(1, 1)\<close>, \<open>(0, 1)\<close> at the positions
  \<open>(0, 0)\<close>, \<open>(width, 0)\<close>, \<open>(width, height)\<close>, \<open>(0, height)\<close>. It is drawn under the
  orthographic projection of \<open>[0, width] \<times> [0, height]\<close> and the identity modelview
  matrix, while the viewport is \<open>(0, 0, width, height)\<close>, so it covers the viewport.
\<close>

theorem background_quad_corners:
  assumes "texture self = Some t" and "bg_texture self = Some b"
  shows "\<exists>self' g' qp rest.
      run fs [Resize w h, Paint] (self, g) = Inr (self', g')
    \<and> viewport g' = (0, 0, sint w, sint h)
    \<and> framebuffer g' =
        Quad qp ((0, 0), (0, 0))
                ((1, 0), (of_int (sint w), 0))
                ((1, 1), (of_int (sint w), of_int (sint h)))
                ((0, 1), (0, of_int (sint h))) # rest
    \<and> pl_projection qp = [Ortho2D 0 (of_int (sint w)) 0 (of_int (sint h))]
    \<and> pl_modelview qp = []
    \<and> pl_texture qp = b"
proof -
  from resizeGL_returns [of w h g]
  obtain g1 where r: "resizeGL w h g = Inr g1" and v: "viewport g1 = (0, 0, sint w, sint h)"
    by blast
  let ?s = "self\<lparr>width := w, height := h, update_pending := False\<rparr>"
  have s: "texture ?s = Some t" "bg_texture ?s = Some b" using assms by simp_all
  from paintGL_background [OF s, of g1]
  obtain g2 where p: "paintGL ?s g1 = Inr g2" and "viewport g2 = viewport g1"
    and "\<exists>qp rest. framebuffer g2 =
        Quad qp ((0, 0), (0, 0))
                ((1, 0), (of_int (sint w), 0))
                ((1, 1), (of_int (sint w), of_int (sint h)))
                ((0, 1), (0, of_int (sint h))) # rest
      \<and> pl_projection qp = [Ortho2D 0 (of_int (sint w)) 0 (of_int (sint h))]
      \<and> pl_modelview qp = [] \<and> pl_texture qp = b"
    by auto
  with r v show ?thesis
    by (auto simp: Let_def)
qed

text \<open>
  The instance with the 800 by 600 window.
\<close>

theorem background_quad_corners_witness:
  "texture ((OpenGLWindow_init ''earth.jpg'' ''stars.png'')\<lparr>texture := Some 1, bg_texture := Some 2\<rparr>) = Some 1
   \<and> bg_texture ((OpenGLWindow_init ''earth.jpg'' ''stars.png'')\<lparr>texture := Some 1, bg_texture := Some 2\<rparr>) = Some 2
   \<and> (\<exists>self' g' qp rest.
        run example_fs [Resize 800 600, Paint]
          ((OpenGLWindow_init ''earth.jpg'' ''stars.png'')\<lparr>texture := Some 1, bg_texture := Some 2\<rparr>,
           fresh_context) = Inr (self', g')
      \<and> framebuffer g' =
          Quad qp ((0, 0), (0, 0)) ((1, 0), (800, 0)) ((1, 1), (800, 600)) ((0, 1), (0, 600)) # rest)"
  using background_quad_corners
    [of "(OpenGLWindow_init ''earth.jpg'' ''stars.png'')\<lparr>texture := Some 1, bg_texture := Some 2\<rparr>"
      1 2 example_fs 800 600 fresh_context]
  by auto

subsection \<open>C7: the background step\<close>

text \<open>
  C7. For a widget with both textures, \<^verbatim>\<open>paintGL\<close> draws exactly two primitives:
  first one quad over the full widget, textured with the background, then the sphere.
  The quad is drawn with the depth test off, the sphere with the depth test on, and
  the depth test is on when \<^verbatim>\<open>paintGL\<close> returns. The background step itself,
  \<^verbatim>\<open>render_background\<close>, started in any context, returns with the projection and
  modelview matrices and both matrix stacks as they were, and with the depth test on.
\<close>

theorem background_then_sphere:
  assumes "texture self = Some t" and "bg_texture self = Some b"
  shows "\<exists>g' g1 qp sp.
      paintGL self g = Inr g'
    \<and> framebuffer g' =
        [Quad qp ((0, 0), (0, 0))
                 ((1, 0), (of_int (sint (width self)), 0))
                 ((1, 1), (of_int (sint (width self)), of_int (sint (height self))))
                 ((0, 1), (0, of_int (sint (height self)))),
         Sphere sp True (3 / 2) 32 32]
    \<and> pl_projection qp =
        [Ortho2D 0 (of_int (sint (width self))) 0 (of_int (sint (height self)))]
    \<and> pl_modelview qp = [] \<and> pl_texture qp = b \<and> pl_texture sp = t
    \<and> \<not> pl_depth_test qp \<and> pl_depth_test sp \<and> depth_test g'
    \<and> render_background self g0 = Inr g1
    \<and> projection g1 = projection g0 \<and> projection_saved g1 = projection_saved g0
    \<and> modelview g1 = modelview g0 \<and> modelview_saved g1 = modelview_saved g0
    \<and> depth_test g1"
proof -
  from paintGL_background [OF assms, of g]
  obtain g' where "paintGL self g = Inr g'" and "depth_test g'"
    and "\<exists>qp sp. framebuffer g' =
        [Quad qp ((0, 0), (0, 0))
                 ((1, 0), (of_int (sint (width self)), 0))
                 ((1, 1), (of_int (sint (width self)), of_int (sint (height self))))
                 ((0, 1), (0, of_int (sint (height self)))),
         Sphere sp True (3 / 2) 32 32]
      \<and> pl_projection qp =
        [Ortho2D 0 (of_int (sint (width self))) 0 (of_int (sint (height self)))]
      \<and> pl_modelview qp = [] \<and> pl_texture qp = b \<and> pl_texture sp = t
      \<and> \<not> pl_depth_test qp \<and> pl_depth_test sp"
    by auto
  moreover from render_background_Some [OF assms(2), of g0]
  obtain g1 where "render_background self g0 = Inr g1"
    and "projection g1 = projection g0" and "projection_saved g1 = projection_saved g0"
    and "modelview g1 = modelview g0" and "modelview_saved g1 = modelview_saved g0"
    and "depth_test g1"
    by blast
  ultimately show ?thesis by blast
qed

text \<open>
  The instance with an 800 by 600 widget in a new context.
\<close>

theorem background_then_sphere_witness:
  "texture ((OpenGLWindow_init ''earth.jpg'' ''stars.png'')\<lparr>texture := Some 1, bg_texture := Some 2, width := 800, height := 600\<rparr>) = Some 1
   \<and> bg_texture ((OpenGLWindow_init ''earth.jpg'' ''stars.png'')\<lparr>texture := Some 1, bg_texture := Some 2, width := 800, height := 600\<rparr>) = Some 2
   \<and> (\<exists>g' qp sp.
        paintGL ((OpenGLWindow_init ''earth.jpg'' ''stars.png'')\<lparr>texture := Some 1, bg_texture := Some 2, width := 800, height := 600\<rparr>)
          fresh_context = Inr g'
      \<and> framebuffer g' =
          [Quad qp ((0, 0), (0, 0)) ((1, 0), (800, 0)) ((1, 1), (800, 600)) ((0, 1), (0, 600)),
           Sphere sp True (3 / 2) 32 32]
      \<and> \<not> pl_depth_test qp \<and> pl_depth_test sp)"
  using background_then_sphere
    [of "(OpenGLWindow_init ''earth.jpg'' ''stars.png'')\<lparr>texture := Some 1, bg_texture := Some 2, width := 800, height := 600\<rparr>"
      1 2 fresh_context fresh_context]
  by (auto simp: OpenGLWindow_init_def)

subsection \<open>C8: the quadric of each frame\<close>

text \<open>
  C8. Every \<^verbatim>\<open>paintGL\<close> of a widget that has its sphere texture returns normally,
  has created exactly one quadric object, and has deleted it: the quadric objects alive
  at the return are those alive at the call, without the new one. After every run of
  events from the start of the program that ends without an exception, no quadric object
  is alive, so none persists from one frame to the next.
\<close>

theorem quadric_released_every_frame:
  "(texture self = Some t \<longrightarrow>
      (\<exists>g'. paintGL self g = Inr g'
         \<and> next_quadric g' = Suc (next_quadric g)
         \<and> map_of (quadrics g') = (map_of (quadrics g))(next_quadric g := None)))
   \<and> (run fs evs (start p b) = Inr (self', g'') \<longrightarrow> quadrics g'' = [])"
proof -
  have "\<exists>g'. paintGL self g = Inr g'
         \<and> next_quadric g' = Suc (next_quadric g)
         \<and> map_of (quadrics g') = (map_of (quadrics g))(next_quadric g := None)"
    if t: "texture self = Some t"
  proof -
    have "\<exists>g'. paintGL self g = Inr g'"
    proof (cases "bg_texture self")
      case None
      from paintGL_plain [OF t None, of g] show ?thesis by blast
    next
      case (Some b)
      from paintGL_background [OF t Some, of g] show ?thesis by blast
    qed
    then obtain g' where p: "paintGL self g = Inr g'" by blast
    from paintGL_quadrics [OF p] have "next_quadric g' = Suc (next_quadric g)"
      and "map_of (quadrics g') = (map_of (quadrics g))(next_quadric g := None)"
      by (simp_all add: delete_conv')
    with p show ?thesis by blast
  qed
  moreover have "quadrics g'' = []" if "run fs evs (start p b) = Inr (self', g'')"
    using that unfolding start_def
    by (rule run_quadrics_empty) (simp add: fresh_context_def)
  ultimately show ?thesis by blast
qed

text \<open>
  The instance with the example file system.
\<close>

theorem quadric_released_every_frame_witness:
  "texture ((OpenGLWindow_init ''earth.jpg'' '''')\<lparr>texture := Some 1\<rparr>) = Some 1
   \<and> (\<exists>g'. paintGL ((OpenGLWindow_init ''earth.jpg'' '''')\<lparr>texture := Some 1\<rparr>) fresh_context = Inr g'
         \<and> next_quadric g' = 2 \<and> map_of (quadrics g') = Map.empty)
   \<and> (\<exists>self' g''. run example_fs [InitializeGL, Resize 800 600, Timeout, Paint]
           (start ''earth.jpg'' '''') = Inr (self', g'')
         \<and> quadrics g'' = [])"
proof -
  let ?self0 = "OpenGLWindow_init ''earth.jpg'' ''''"
  have pre: "example_fs (texture_image ?self0) = Picture earth_img" "background_image ?self0 = []"
    "bg_texture ?self0 = None" "isActive (timer ?self0)"
    by (simp_all add: OpenGLWindow_init_def example_fs_def)
  from scenario_frame [where fs = example_fs and ?self0.0 = ?self0 and img = earth_img
      and m = 0 and n = 1 and w = 800 and h = 600, OF pre]
  obtain self' g'' where r: "run example_fs [InitializeGL, Resize 800 600, Timeout, Paint]
           (start ''earth.jpg'' '''') = Inr (self', g'')"
    by (auto simp: start_def)
  have t: "texture (?self0\<lparr>texture := Some 1\<rparr>) = Some 1" by simp
  from quadric_released_every_frame
    [of "?self0\<lparr>texture := Some 1\<rparr>" 1 fresh_context example_fs
      "[InitializeGL, Resize 800 600, Timeout, Paint]" "''earth.jpg''" "''''" self' g'']
    r t
  show ?thesis by (auto simp: fresh_context_def)
qed

end
